theory Spec2Isabelle
  imports Complex_Main "HOL-Library.Monad_Syntax"
begin

section \<open>JavaScript values\<close>

text \<open>
  The client is TypeScript run as JavaScript. In the page and its components a
  JavaScript number is modelled as a real: the rounding of IEEE doubles, NaN and the
  infinities are left out there. The route handler, which reads and writes JSON text, has
  a model of its own further down, with numbers as doubles.
\<close>

type_synonym number = real

text \<open>
  What \<^verbatim>\<open>await res.json()\<close> delivers to the page is untyped (\<^verbatim>\<open>any\<close>): a JSON
  value. \<open>JUndefined\<close> is what reading an absent property yields.
  An object is the list of its properties in insertion order; a later property with the
  same key overrides an earlier one, as in an object literal with a spread and in
  \<^verbatim>\<open>JSON.parse\<close>.
\<close>

datatype jsval =
    JUndefined
  | JNull
  | JBool bool
  | JNum number
  | JStr string
  | JArr "jsval list"
  | JObj "(string \<times> jsval) list"

definition field :: "(string \<times> jsval) list \<Rightarrow> string \<rightharpoonup> jsval" where
  "field kvs k = map_of (rev kvs) k"

text \<open>\<^verbatim>\<open>!v\<close> is \<open>\<not> truthy v\<close>.\<close>

fun truthy :: "jsval \<Rightarrow> bool" where
  "truthy JUndefined = False"
| "truthy JNull = False"
| "truthy (JBool b) = b"
| "truthy (JNum x) = (x \<noteq> 0)"
| "truthy (JStr s) = (s \<noteq> [])"
| "truthy (JArr xs) = True"
| "truthy (JObj kvs) = True"

fun nullish :: "jsval \<Rightarrow> bool" where
  "nullish JUndefined = True"
| "nullish JNull = True"
| "nullish v = False"

text \<open>
  \<^verbatim>\<open>v.k\<close>: a TypeError (\<open>None\<close>) on \<^verbatim>\<open>undefined\<close> and \<^verbatim>\<open>null\<close>, the property or
  \<^verbatim>\<open>undefined\<close> on an object, \<^verbatim>\<open>undefined\<close> on a boolean, number, string or array
  (for the property names read in this program, none of which a built-in prototype defines).
\<close>

fun get :: "jsval \<Rightarrow> string \<Rightarrow> jsval option" where
  "get JUndefined k = None"
| "get JNull k = None"
| "get (JObj kvs) k = Some (case field kvs k of None \<Rightarrow> JUndefined | Some v \<Rightarrow> v)"
| "get v k = Some JUndefined"

text \<open>\<^verbatim>\<open>v?.k\<close>\<close>

definition get_opt :: "jsval \<Rightarrow> string \<Rightarrow> jsval option" where
  "get_opt v k = (if nullish v then Some JUndefined else get v k)"

text \<open>\<^verbatim>\<open>a || b\<close> and \<^verbatim>\<open>a ?? b\<close>\<close>

definition js_or :: "jsval \<Rightarrow> jsval \<Rightarrow> jsval" where
  "js_or a b = (if truthy a then a else b)"

definition js_coalesce :: "jsval \<Rightarrow> jsval \<Rightarrow> jsval" where
  "js_coalesce a b = (if nullish a then b else a)"

text \<open>
  Text produced by a formatter. \<^verbatim>\<open>percent.format(v)\<close> and \<^verbatim>\<open>mad.format(v)\<close> are calls
  of the platform's \<^verbatim>\<open>Intl.NumberFormat\<close>, kept as the formatter and its argument.
  \<^verbatim>\<open>v.toFixed(d)\<close> is a method of numbers only: on any other value that is not nullish
  the call is a TypeError (not a function).
\<close>

datatype formatted =
    PercentFormat jsval
  | MadFormat jsval
  | FixedFormat number nat

fun toFixed :: "jsval \<Rightarrow> nat \<Rightarrow> formatted option" where
  "toFixed (JNum x) d = Some (FixedFormat x d)"
| "toFixed v d = None"

section \<open>types/simulation.ts\<close>

datatype SimulationType = Deterministic | MonteCarlo

text \<open>An element of \<^verbatim>\<open>trajectory\<close>: \<^verbatim>\<open>{ month: number; value: number }\<close>.\<close>

record TrajectoryPoint =
  month :: number
  point_value :: number

record Percentiles =
  p5 :: number
  p50 :: number
  p95 :: number

record RiskMetrics =
  annualized_vol :: number
  sharpe :: number
  sortino :: number
  max_drawdown_mean :: number
  calmar :: number

text \<open>The interface \<^verbatim>\<open>SimulationResult\<close>; a member declared with \<^verbatim>\<open>?\<close> is an option.\<close>

record SimulationResult =
  fund_name :: string
  category :: string
  assumed_annual_return :: number
  years :: number
  gross_final_value :: number
  net_final_value :: number
  net_profit_after_tax :: number
  tax_paid :: number
  total_contributed :: number
  trajectory :: "TrajectoryPoint list option"
  assumed_annual_vol :: "number option"
  n_paths :: "number option"
  percentiles :: "Percentiles option"
  prob_loss :: "number option"
  risk_metrics :: "RiskMetrics option"

section \<open>components/simulation/SimulationResults.tsx\<close>

text \<open>
  The four cards of \<^verbatim>\<open>DeterministicResults\<close>. Every figure is
  \<^verbatim>\<open>format(result.f || 0)\<close>. The function is \<open>None\<close> where the JavaScript throws.
\<close>

record det_cards =
  det_assumed_annual_return :: formatted
  det_net_final_value :: formatted
  det_net_profit_after_tax :: formatted
  det_tax_paid :: formatted

definition DeterministicResults :: "jsval \<Rightarrow> det_cards option" where
  "DeterministicResults result = do {
     ret \<leftarrow> get result ''assumed_annual_return'';
     net \<leftarrow> get result ''net_final_value'';
     profit \<leftarrow> get result ''net_profit_after_tax'';
     tax \<leftarrow> get result ''tax_paid'';
     Some \<lparr> det_assumed_annual_return = PercentFormat (js_or ret (JNum 0)),
            det_net_final_value = MadFormat (js_or net (JNum 0)),
            det_net_profit_after_tax = MadFormat (js_or profit (JNum 0)),
            det_tax_paid = MadFormat (js_or tax (JNum 0)) \<rparr>
   }"

text \<open>
  The cards of \<^verbatim>\<open>MonteCarloResults\<close>: \<^verbatim>\<open>result.percentiles?.p5 || 0\<close> and
  \<^verbatim>\<open>(result.risk_metrics?.sharpe || 0).toFixed(2)\<close> read through an optional chain.
\<close>

record mc_cards =
  mc_assumed_annual_return :: formatted
  mc_assumed_annual_vol :: formatted
  mc_p5 :: formatted
  mc_p50 :: formatted
  mc_p95 :: formatted
  mc_prob_loss :: formatted
  mc_sharpe :: formatted

definition MonteCarloResults :: "jsval \<Rightarrow> mc_cards option" where
  "MonteCarloResults result = do {
     ret \<leftarrow> get result ''assumed_annual_return'';
     vol \<leftarrow> get result ''assumed_annual_vol'';
     pc \<leftarrow> get result ''percentiles'';
     v5 \<leftarrow> get_opt pc ''p5'';
     v50 \<leftarrow> get_opt pc ''p50'';
     v95 \<leftarrow> get_opt pc ''p95'';
     loss \<leftarrow> get result ''prob_loss'';
     rm \<leftarrow> get result ''risk_metrics'';
     sh \<leftarrow> get_opt rm ''sharpe'';
     sharpe_text \<leftarrow> toFixed (js_or sh (JNum 0)) 2;
     Some \<lparr> mc_assumed_annual_return = PercentFormat (js_or ret (JNum 0)),
            mc_assumed_annual_vol = PercentFormat (js_or vol (JNum 0)),
            mc_p5 = MadFormat (js_or v5 (JNum 0)),
            mc_p50 = MadFormat (js_or v50 (JNum 0)),
            mc_p95 = MadFormat (js_or v95 (JNum 0)),
            mc_prob_loss = PercentFormat (js_or loss (JNum 0)),
            mc_sharpe = sharpe_text \<rparr>
   }"

text \<open>
  \<^verbatim>\<open>SimulationResults\<close> returns a card. Without a result the card holds the placeholder
  text; with one it holds the category badge and mounts one of the two child components
  with the result as its prop. The child is an element: React calls the child's function
  when it renders the element.
\<close>

datatype results_child =
    Mount_DeterministicResults jsval
  | Mount_MonteCarloResults jsval

datatype results_view =
    Placeholder string string
  | ResultsCard string jsval results_child

definition CardDescription :: "SimulationType \<Rightarrow> string" where
  "CardDescription simulationType =
     (if simulationType = Deterministic
      then ''Key performance indicators after fees and tax.''
      else ''Probabilistic outcomes with risk metrics.'')"

definition SimulationResults :: "jsval \<Rightarrow> SimulationType \<Rightarrow> results_view option" where
  "SimulationResults result simulationType =
     (if \<not> truthy result
      then Some (Placeholder (CardDescription simulationType)
                   ''Run a simulation to see projected outcomes.'')
      else do {
        cat \<leftarrow> get result ''category'';
        Some (ResultsCard (CardDescription simulationType) cat
               (if simulationType = Deterministic
                then Mount_DeterministicResults result
                else Mount_MonteCarloResults result))
      })"

text \<open>What React shows for a mounted child: the cards its function returns.\<close>

datatype cards = DetCards det_cards | McCards mc_cards

fun render_child :: "results_child \<Rightarrow> cards option" where
  "render_child (Mount_DeterministicResults r) = map_option DetCards (DeterministicResults r)"
| "render_child (Mount_MonteCarloResults r) = map_option McCards (MonteCarloResults r)"

section \<open>components/simulation/ProjectionChart.tsx\<close>

text \<open>
  \<open>NoChart\<close> is the \<^verbatim>\<open>return null\<close>; \<open>LineChart d\<close> is the chart with
  \<^verbatim>\<open>data={result?.trajectory ?? []}\<close>.
\<close>

datatype chart_view = NoChart | LineChart jsval

definition ProjectionChart :: "jsval \<Rightarrow> SimulationType \<Rightarrow> chart_view option" where
  "ProjectionChart result simulationType =
     (if \<not> truthy result \<or> simulationType \<noteq> Deterministic
      then Some NoChart
      else do {
        tr \<leftarrow> get_opt result ''trajectory'';
        Some (LineChart (js_coalesce tr (JArr [])))
      })"

section \<open>components/simulation/SimulationInputs.tsx\<close>

definition FUNDS :: "string list" where
  "FUNDS =
    [''ATTIJARI ACTIONS'',
     ''ATTIJARI AL MOUCHARAKA'',
     ''ATTIJARI DIVIDEND FUND'',
     ''ATTIJARI PATRIMOINE VALEURS'',
     ''FCP ATTIJARI GOLD'',
     ''ATTIJARI DIVERSIFIE'',
     ''ATTIJARI PATRIMOINE DIVERSIFIE'',
     ''WG OBLIGATIONS'',
     ''ATTIJARI PATRIMOINE TAUX'',
     ''PATRIMOINE OBLIGATIONS'',
     ''ATTIJARI MONETAIRE PLUS'']"

text \<open>
  Modelled from the spec: the \<^verbatim>\<open>Slider\<close> of \<^verbatim>\<open>components/ui/slider\<close> is not among the
  sources. A slider with the props \<^verbatim>\<open>min\<close>, \<^verbatim>\<open>max\<close> and \<^verbatim>\<open>step\<close> is taken to hand
  \<^verbatim>\<open>onValueChange\<close> the pointer position snapped to the step grid that starts at
  \<^verbatim>\<open>min\<close>, then clamped to \<^verbatim>\<open>[min, max]\<close>: the ranges the spec gives for the inputs
  (years 1 to 30, annual fee 0 to 0.05, path count 1,000 to 10,000) are the sliders' props.
\<close>

definition Slider_value :: "number \<Rightarrow> number \<Rightarrow> number \<Rightarrow> number \<Rightarrow> number" where
  "Slider_value lo hi step pos = max lo (min hi (lo + of_int (round ((pos - lo) / step)) * step))"

text \<open>
  \<^verbatim>\<open>+x.toFixed(d)\<close>: the decimal text with \<open>d\<close> fraction digits (nearest, a tie to the
  larger magnitude; the number's own text from \<open>10\<^sup>2\<^sup>1\<close> on), read back as a number.
\<close>

definition toFixed_number :: "number \<Rightarrow> nat \<Rightarrow> number" where
  "toFixed_number x d =
     (if \<bar>x\<bar> \<ge> 10 ^ 21 then x
      else if x < 0 then - (of_int (round (- x * 10 ^ d)) / 10 ^ d)
      else of_int (round (x * 10 ^ d)) / 10 ^ d)"

text \<open>
  What \<^verbatim>\<open>SimulationInputs\<close> renders from the props \<^verbatim>\<open>simulationType\<close>,
  \<^verbatim>\<open>loading\<close> and \<^verbatim>\<open>totalContributed\<close>: the footer shows
  \<^verbatim>\<open>mad.format(totalContributed)\<close>, the path-count slider is there in Monte Carlo mode
  only, the run button is disabled while loading and carries the mode's name.
\<close>

record inputs_view =
  total_contributed_text :: formatted
  nPaths_slider_shown :: bool
  run_disabled :: bool
  run_label :: string

definition SimulationInputs :: "SimulationType \<Rightarrow> bool \<Rightarrow> number \<Rightarrow> inputs_view" where
  "SimulationInputs simulationType loading totalContributed =
     \<lparr> total_contributed_text = MadFormat (JNum totalContributed),
       nPaths_slider_shown = (simulationType = MonteCarlo),
       run_disabled = loading,
       run_label =
         (if loading then ''Simulating...''
          else ''Run '' @ (if simulationType = Deterministic then ''Deterministic''
                           else ''Monte Carlo'') @ '' Simulation'') \<rparr>"

text \<open>
  The local \<^verbatim>\<open>handleSimulationTypeChange\<close> of the component hands the type to the
  \<^verbatim>\<open>setSimulationType\<close> prop and does nothing else.
\<close>

definition SimulationInputs_handleSimulationTypeChange ::
    "(SimulationType \<Rightarrow> 's \<Rightarrow> 's) \<Rightarrow> SimulationType \<Rightarrow> 's \<Rightarrow> 's" where
  "SimulationInputs_handleSimulationTypeChange setSimulationType type = setSimulationType type"

section \<open>app/page.tsx\<close>

text \<open>The state hooks of \<^verbatim>\<open>Home\<close>, with their initial values.\<close>

record home_state =
  fund :: string
  initial :: number
  monthly :: number
  years :: number
  fee :: number
  nPaths :: number
  result :: jsval
  simulationType :: SimulationType
  loading :: bool

definition Home_init :: home_state where
  "Home_init =
     \<lparr> fund = ''ATTIJARI ACTIONS'', initial = 100000, monthly = 3000, years = 5,
       fee = 18 / 1000, nPaths = 5000, result = JNull, simulationType = Deterministic,
       loading = False \<rparr>"

definition totalContributed :: "home_state \<Rightarrow> number" where
  "totalContributed st = initial st + monthly st * years st * 12"

text \<open>
  \<^verbatim>\<open>runSimulation\<close> is asynchronous. Up to the \<^verbatim>\<open>await fetch\<close> it sets \<^verbatim>\<open>loading\<close> and
  builds the request; when the response's JSON arrives it stores it and clears
  \<^verbatim>\<open>loading\<close>; when the fetch or the parse fails, only the \<^verbatim>\<open>finally\<close> runs.
\<close>

record fetch_request =
  endpoint :: string
  http_method :: string
  headers :: "(string \<times> string) list"
  body :: jsval

definition requestBody :: "home_state \<Rightarrow> jsval" where
  "requestBody st =
     JObj ([(''fund_name'', JStr (fund st)),
            (''initial_amount'', JNum (initial st)),
            (''monthly_contribution'', JNum (monthly st)),
            (''years'', JNum (years st)),
            (''annual_fee'', JNum (fee st))]
           @ (if simulationType st = MonteCarlo then [(''n_paths'', JNum (nPaths st))] else []))"

definition runSimulation_request :: "home_state \<Rightarrow> fetch_request" where
  "runSimulation_request st =
     \<lparr> endpoint = (if simulationType st = Deterministic then ''/api/simulate''
                   else ''/api/mc-simulate''),
       http_method = ''POST'',
       headers = [(''Content-Type'', ''application/json'')],
       body = requestBody st \<rparr>"

definition runSimulation_begin :: "home_state \<Rightarrow> home_state" where
  "runSimulation_begin st = st\<lparr>loading := True\<rparr>"

definition runSimulation_resolve :: "jsval \<Rightarrow> home_state \<Rightarrow> home_state" where
  "runSimulation_resolve data st = (st\<lparr>result := data\<rparr>)\<lparr>loading := False\<rparr>"

definition runSimulation_reject :: "home_state \<Rightarrow> home_state" where
  "runSimulation_reject st = st\<lparr>loading := False\<rparr>"

definition handleSimulationTypeChange :: "SimulationType \<Rightarrow> home_state \<Rightarrow> home_state" where
  "handleSimulationTypeChange type st = (st\<lparr>simulationType := type\<rparr>)\<lparr>result := JNull\<rparr>"

text \<open>
  What \<^verbatim>\<open>Home\<close> renders: the inputs card, the results card and the chart, each from
  the state of the page.
\<close>

record home_view =
  inputs :: inputs_view
  results :: "results_view option"
  chart :: "chart_view option"

definition Home :: "home_state \<Rightarrow> home_view" where
  "Home st =
     \<lparr> inputs = SimulationInputs (simulationType st) (loading st) (totalContributed st),
       results = SimulationResults (result st) (simulationType st),
       chart = ProjectionChart (result st) (simulationType st) \<rparr>"

text \<open>
  The events of the page: what the user does with a control, and the end of the request in
  flight. The select offers the entries of \<open>FUNDS\<close> (the event names the entry's index);
  a number input hands over \<^verbatim>\<open>+e.target.value\<close>; a slider hands over its value for the
  pointer position.
\<close>

text \<open>
  An event the page cannot produce in its state leaves the state as it is: an index past
  the end of \<open>FUNDS\<close>, the path-count slider outside Monte Carlo mode (it is not
  rendered), a click on the run button while it is disabled, a response with no request
  in flight.
\<close>

datatype event =
    FundSelect nat
  | InitialInput number
  | MonthlyInput number
  | YearsSlide number
  | FeeSlide number
  | NPathsSlide number
  | TypeClick SimulationType
  | RunClick
  | Response jsval
  | ResponseFailed

record client =
  ui :: home_state
  pending :: "fetch_request option"

definition client_init :: client where
  "client_init = \<lparr> ui = Home_init, pending = None \<rparr>"

fun handle :: "client \<Rightarrow> event \<Rightarrow> client" where
  "handle c (FundSelect i) =
     (if i < length FUNDS then c\<lparr>ui := (ui c)\<lparr>fund := FUNDS ! i\<rparr>\<rparr> else c)"
| "handle c (InitialInput x) = c\<lparr>ui := (ui c)\<lparr>initial := x\<rparr>\<rparr>"
| "handle c (MonthlyInput x) = c\<lparr>ui := (ui c)\<lparr>monthly := x\<rparr>\<rparr>"
| "handle c (YearsSlide pos) = c\<lparr>ui := (ui c)\<lparr>years := Slider_value 1 30 1 pos\<rparr>\<rparr>"
| "handle c (FeeSlide pos) =
     c\<lparr>ui := (ui c)\<lparr>fee := toFixed_number (Slider_value 0 (5 / 100) (1 / 1000) pos) 3\<rparr>\<rparr>"
| "handle c (NPathsSlide pos) =
     (if simulationType (ui c) = MonteCarlo
      then c\<lparr>ui := (ui c)\<lparr>nPaths := Slider_value 1000 10000 500 pos\<rparr>\<rparr>
      else c)"
| "handle c (TypeClick type) =
     c\<lparr>ui := SimulationInputs_handleSimulationTypeChange handleSimulationTypeChange type (ui c)\<rparr>"
| "handle c RunClick =
     (if loading (ui c) then c
      else \<lparr> ui = runSimulation_begin (ui c), pending = Some (runSimulation_request (ui c)) \<rparr>)"
| "handle c (Response data) =
     (case pending c of
        None \<Rightarrow> c
      | Some req \<Rightarrow> \<lparr> ui = runSimulation_resolve data (ui c), pending = None \<rparr>)"
| "handle c ResponseFailed =
     (case pending c of
        None \<Rightarrow> c
      | Some req \<Rightarrow> \<lparr> ui = runSimulation_reject (ui c), pending = None \<rparr>)"

definition run :: "event list \<Rightarrow> client \<Rightarrow> client" where
  "run evs c = foldl handle c evs"

section \<open>JSON as JavaScript reads and writes it\<close>

text \<open>
  The route handler reads the text of a request body with \<^verbatim>\<open>req.json()\<close> and writes
  text again with \<^verbatim>\<open>JSON.stringify\<close>. There the exact value of a number matters, and
  numbers are IEEE doubles: a finite double is the real it stands for (negative zero is
  not told from zero), and there are the two infinities. No NaN comes out of a JSON text.
\<close>

datatype jsnumber = Finite real | PlusInfinity | MinusInfinity

text \<open>The nearest integer, a tie going to the even one.\<close>

definition round_half_even :: "real \<Rightarrow> int" where
  "round_half_even y =
     (let n = \<lfloor>y\<rfloor>; r = y - of_int n
      in if r < 1 / 2 then n else if 1 / 2 < r then n + 1 else if even n then n else n + 1)"

text \<open>
  The nearest double of a positive real \<open>y\<close>, before the range is checked: doubles have
  53 significant bits, so between \<open>2\<^sup>e\<close> and \<open>2\<^sup>e\<^sup>+\<^sup>1\<close> they are the multiples of
  \<open>2\<^sup>e\<^sup>-\<^sup>5\<^sup>2\<close>; below \<open>2\<^sup>-\<^sup>1\<^sup>0\<^sup>2\<^sup>2\<close> (the subnormal numbers) the spacing stays that of
  \<open>e = -1022\<close>.
\<close>

definition double_near :: "real \<Rightarrow> real" where
  "double_near y =
     (let e = max \<lfloor>log 2 y\<rfloor> (- 1022); u = 2 powr of_int (e - 52)
      in of_int (round_half_even (y / u)) * u)"

text \<open>
  The number \<^verbatim>\<open>JSON.parse\<close> makes of a numeric literal that denotes \<open>x\<close>: the nearest
  double, and an infinity when that is \<open>2\<^sup>1\<^sup>0\<^sup>2\<^sup>4\<close> or more in magnitude.
\<close>

definition to_double :: "real \<Rightarrow> jsnumber" where
  "to_double x =
     (if x = 0 then Finite 0
      else if 0 < x
        then (if 2 ^ 1024 \<le> double_near x then PlusInfinity else Finite (double_near x))
        else (if 2 ^ 1024 \<le> double_near (- x) then MinusInfinity
              else Finite (- double_near (- x))))"

text \<open>
  A JSON text, taken as what it denotes: white space and the spelling of a number or of
  an escape are not part of it, but a number is the exact number written, and the members
  of an object are in the order of the text, repeated keys included.
\<close>

datatype json =
    JsonNull
  | JsonBool bool
  | JsonNumber real
  | JsonString string
  | JsonArray "json list"
  | JsonObject "(string \<times> json) list"

text \<open>
  What \<^verbatim>\<open>JSON.parse\<close> returns: numbers are doubles, and an object is the list of its
  own properties in the order in which JavaScript enumerates them.
\<close>

datatype data =
    DataNull
  | DataBool bool
  | DataNumber jsnumber
  | DataString string
  | DataArray "data list"
  | DataObject "(string \<times> data) list"

text \<open>
  A property key is an array index when it is the canonical decimal text of an integer
  below \<open>2\<^sup>3\<^sup>2 - 1\<close>: digits only and no leading zero.
\<close>

definition digit_value :: "char \<Rightarrow> nat option" where
  "digit_value c =
     (let n = of_char c :: nat in if 48 \<le> n \<and> n \<le> 57 then Some (n - 48) else None)"

fun digits_value :: "nat \<Rightarrow> string \<Rightarrow> nat option" where
  "digits_value acc [] = Some acc"
| "digits_value acc (c # cs) =
     (case digit_value c of None \<Rightarrow> None | Some d \<Rightarrow> digits_value (10 * acc + d) cs)"

definition array_index :: "string \<Rightarrow> nat option" where
  "array_index k =
     (if k = [] \<or> (hd k = CHR ''0'' \<and> k \<noteq> ''0'') then None
      else case digits_value 0 k of
             None \<Rightarrow> None
           | Some n \<Rightarrow> if n < 2 ^ 32 - 1 then Some n else None)"

text \<open>
  The properties of an object are enumerated with the array indices first, in ascending
  order, and then the other keys in the order in which they were created. \<open>rank\<close> puts
  every other key after every array index.
\<close>

definition rank :: "string \<Rightarrow> nat" where
  "rank k = (case array_index k of Some i \<Rightarrow> i | None \<Rightarrow> 2 ^ 32 - 1)"

text \<open>A new property takes its place in that order.\<close>

fun insert_property :: "string \<Rightarrow> 'v \<Rightarrow> (string \<times> 'v) list \<Rightarrow> (string \<times> 'v) list" where
  "insert_property k v [] = [(k, v)]"
| "insert_property k v (p # ps) =
     (if rank (fst p) \<le> rank k then p # insert_property k v ps else (k, v) # p # ps)"

text \<open>
  \<^verbatim>\<open>JSON.parse\<close> defines one property for each member of the text, in the order of the
  text: a key that the object has already keeps its place and takes the new value.
\<close>

definition put_property :: "(string \<times> 'v) list \<Rightarrow> string \<times> 'v \<Rightarrow> (string \<times> 'v) list" where
  "put_property ps kv =
     (if fst kv \<in> fst ` set ps
      then map (\<lambda>p. if fst p = fst kv then (fst p, snd kv) else p) ps
      else insert_property (fst kv) (snd kv) ps)"

definition properties :: "(string \<times> 'v) list \<Rightarrow> (string \<times> 'v) list" where
  "properties kvs = foldl put_property [] kvs"

fun JSON_parse :: "json \<Rightarrow> data" where
  "JSON_parse JsonNull = DataNull"
| "JSON_parse (JsonBool b) = DataBool b"
| "JSON_parse (JsonNumber x) = DataNumber (to_double x)"
| "JSON_parse (JsonString s) = DataString s"
| "JSON_parse (JsonArray xs) = DataArray (map JSON_parse xs)"
| "JSON_parse (JsonObject kvs) = DataObject (properties (map (\<lambda>(k, v). (k, JSON_parse v)) kvs))"

text \<open>
  \<^verbatim>\<open>JSON.stringify\<close> writes the properties of an object in their order, a finite number
  as the decimal text \<^verbatim>\<open>Number.prototype.toString\<close> gives it, and an infinity as
  \<^verbatim>\<open>null\<close>. \<open>T d\<close> is the number which the text written for the double \<open>d\<close> denotes.
  Every value \<^verbatim>\<open>JSON.parse\<close> returns is written: none is \<^verbatim>\<open>undefined\<close> or a function.
\<close>

fun JSON_stringify :: "(real \<Rightarrow> real) \<Rightarrow> data \<Rightarrow> json" where
  "JSON_stringify T DataNull = JsonNull"
| "JSON_stringify T (DataBool b) = JsonBool b"
| "JSON_stringify T (DataNumber (Finite d)) = JsonNumber (T d)"
| "JSON_stringify T (DataNumber PlusInfinity) = JsonNull"
| "JSON_stringify T (DataNumber MinusInfinity) = JsonNull"
| "JSON_stringify T (DataString s) = JsonString s"
| "JSON_stringify T (DataArray xs) = JsonArray (map (JSON_stringify T) xs)"
| "JSON_stringify T (DataObject ps) = JsonObject (map (\<lambda>(k, v). (k, JSON_stringify T v)) ps)"

text \<open>
  The text of a number is the shortest decimal that reads back as the same double. Only
  that it reads back is used here; an integer double below \<open>10\<^sup>2\<^sup>1\<close> is written digit
  for digit, so for such a double \<open>T d = d\<close>.
\<close>

definition reads_back :: "(real \<Rightarrow> real) \<Rightarrow> bool" where
  "reads_back T = (\<forall>d. to_double d = Finite d \<longrightarrow> to_double (T d) = Finite d)"

text \<open>
  A value as \<^verbatim>\<open>JSON.stringify\<close> followed by \<^verbatim>\<open>JSON.parse\<close> gives it back: an infinity
  has become \<^verbatim>\<open>null\<close>.
\<close>

fun nulled :: "data \<Rightarrow> data" where
  "nulled (DataNumber PlusInfinity) = DataNull"
| "nulled (DataNumber MinusInfinity) = DataNull"
| "nulled (DataArray xs) = DataArray (map nulled xs)"
| "nulled (DataObject ps) = DataObject (map (\<lambda>(k, v). (k, nulled v)) ps)"
| "nulled v = v"

text \<open>
  The values JavaScript can hold: every finite number is a double, and the properties of
  every object are in enumeration order, each key once.
\<close>

definition ordered_properties :: "(string \<times> 'v) list \<Rightarrow> bool" where
  "ordered_properties ps = (sorted (map (rank \<circ> fst) ps) \<and> distinct (map fst ps))"

fun js_data :: "data \<Rightarrow> bool" where
  "js_data (DataNumber (Finite d)) = (to_double d = Finite d)"
| "js_data (DataArray xs) = list_all js_data xs"
| "js_data (DataObject ps) = (ordered_properties ps \<and> list_all (\<lambda>p. js_data (snd p)) ps)"
| "js_data v = True"

section \<open>app/api/mc-simulate/route.ts\<close>

text \<open>
  The route handler \<^verbatim>\<open>POST\<close>. \<open>req_body\<close> is the body of the request as JSON text
  (\<open>None\<close> when it is no JSON text: \<^verbatim>\<open>await req.json()\<close> throws). \<open>backend\<close> is the
  server behind \<^verbatim>\<open>fetch\<close>: it gives the status and the body of its response (\<open>None\<close>
  when the fetch fails; a body that is no JSON text is \<open>None\<close>, and \<^verbatim>\<open>await res.json()\<close>
  throws). The handler returns the calls of \<^verbatim>\<open>fetch\<close> it made and its response:
  \<^verbatim>\<open>NextResponse.json(data)\<close> is a response with the status 200 and the body
  \<^verbatim>\<open>JSON.stringify(data)\<close>.
\<close>

record route_fetch =
  fetch_url :: string
  fetch_method :: string
  fetch_headers :: "(string \<times> string) list"
  fetch_body :: json

record backend_response =
  backend_status :: nat
  backend_body :: "json option"

record route_response =
  response_status :: nat
  response_body :: json

definition POST ::
    "(real \<Rightarrow> real) \<Rightarrow> (route_fetch \<Rightarrow> backend_response option) \<Rightarrow> json option
      \<Rightarrow> route_fetch list \<times> route_response option" where
  "POST T backend req_body =
     (case req_body of
        None \<Rightarrow> ([], None)
      | Some text \<Rightarrow>
          (let received = JSON_parse text;
               call = \<lparr> fetch_url = ''http://localhost:8000/mc-simulate'',
                        fetch_method = ''POST'',
                        fetch_headers = [(''Content-Type'', ''application/json'')],
                        fetch_body = JSON_stringify T received \<rparr>
           in ([call],
               case backend call of
                 None \<Rightarrow> None
               | Some res \<Rightarrow>
                   (case backend_body res of
                      None \<Rightarrow> None
                    | Some answer \<Rightarrow>
                        Some \<lparr> response_status = 200,
                               response_body = JSON_stringify T (JSON_parse answer) \<rparr>))))"

section \<open>Result objects\<close>

text \<open>
  The value of a property read without a failure: \<^verbatim>\<open>v?.k\<close>, with \<^verbatim>\<open>undefined\<close> where
  the read would throw.
\<close>

definition member :: "jsval \<Rightarrow> string \<Rightarrow> jsval" where
  "member v k = (case get_opt v k of None \<Rightarrow> JUndefined | Some w \<Rightarrow> w)"

definition number_or_zero :: "jsval \<Rightarrow> number" where
  "number_or_zero v = (case v of JNum x \<Rightarrow> x | _ \<Rightarrow> 0)"

text \<open>
  A result object: an object whose members, where they are there (neither missing nor
  \<^verbatim>\<open>undefined\<close> nor \<^verbatim>\<open>null\<close>), have the types the interface \<^verbatim>\<open>SimulationResult\<close>
  declares. Any member may be missing.
\<close>

fun optional_number :: "jsval \<Rightarrow> bool" where
  "optional_number (JNum x) = True"
| "optional_number v = nullish v"

fun optional_string :: "jsval \<Rightarrow> bool" where
  "optional_string (JStr s) = True"
| "optional_string v = nullish v"

fun optional_numbers :: "string list \<Rightarrow> jsval \<Rightarrow> bool" where
  "optional_numbers keys (JObj kvs) = list_all (\<lambda>k. optional_number (member (JObj kvs) k)) keys"
| "optional_numbers keys v = nullish v"

fun optional_trajectory :: "jsval \<Rightarrow> bool" where
  "optional_trajectory (JArr points) = list_all (optional_numbers [''month'', ''value'']) points"
| "optional_trajectory v = nullish v"

definition result_object :: "jsval \<Rightarrow> bool" where
  "result_object r =
     (case r of
        JObj kvs \<Rightarrow>
          optional_string (member r ''fund_name'')
          \<and> optional_string (member r ''category'')
          \<and> optional_numbers
               [''assumed_annual_return'', ''years'', ''gross_final_value'', ''net_final_value'',
                ''net_profit_after_tax'', ''tax_paid'', ''total_contributed'',
                ''assumed_annual_vol'', ''n_paths'', ''prob_loss''] r
          \<and> optional_trajectory (member r ''trajectory'')
          \<and> optional_numbers [''p5'', ''p50'', ''p95''] (member r ''percentiles'')
          \<and> optional_numbers
               [''annualized_vol'', ''sharpe'', ''sortino'', ''max_drawdown_mean'', ''calmar'']
               (member r ''risk_metrics'')
      | _ \<Rightarrow> False)"

section \<open>The values of the interface SimulationResult\<close>







section \<open>The percentiles of the risk metrics\<close>

text \<open>
  Modelled from the spec: the risk-metrics aggregator belongs to the Python engine, which is
  not among the sources. The spec has the percentiles p5, p50 and p95 "computed over the
  cross-path distribution of post-tax net final values using linear interpolation between
  order statistics (standard percentile definition)": for the sorted values
  \<open>s\<^sub>0 \<le> \<dots> \<le> s\<^sub>n\<^sub>-\<^sub>1\<close> and the fraction \<open>q\<close>, the position is \<open>h = q (n - 1)\<close> and
  the percentile lies between \<open>s\<close> at \<open>\<lfloor>h\<rfloor>\<close> and its successor, in proportion to the
  fractional part of \<open>h\<close>. \<open>finals\<close> holds one post-tax net final value per simulated path;
  without a path there is nothing to report.
\<close>

definition interpolate :: "real list \<Rightarrow> real \<Rightarrow> real" where
  "interpolate s h =
     (let lo = nat \<lfloor>h\<rfloor>;
          hi = min (lo + 1) (length s - 1)
      in s ! lo + (h - real lo) * (s ! hi - s ! lo))"

text \<open>
  Modelled from the spec: the percentile of the cross-path distribution at the fraction
  \<open>q\<close>, by the interpolation above on the sorted values ("ties broken by natural
  ordering").
\<close>

definition percentile :: "real list \<Rightarrow> real \<Rightarrow> real" where
  "percentile finals q = interpolate (sort finals) (q * real (length finals - 1))"

text \<open>
  Modelled from the spec: the percentiles the aggregator reports, p5, p50 and p95 of the
  post-tax net final values of the paths.
\<close>

definition risk_percentiles :: "real list \<Rightarrow> Percentiles option" where
  "risk_percentiles finals =
     (if finals = [] then None
      else Some \<lparr> p5 = percentile finals (5 / 100),
                  p50 = percentile finals (50 / 100),
                  p95 = percentile finals (95 / 100) \<rparr>)"

section \<open>The inputs the controls can produce\<close>

text \<open>
  The domain of each input that a control of the page bounds: the select, and the three
  sliders. The initial amount and the monthly contribution come from free number inputs and
  have no bound.
\<close>

definition inputs_valid :: "home_state \<Rightarrow> bool" where
  "inputs_valid st \<longleftrightarrow>
     fund st \<in> set FUNDS \<and> years st \<in> \<int> \<and> 1 \<le> years st \<and> years st \<le> 30
     \<and> 0 \<le> fee st \<and> fee st \<le> 5 / 100 \<and> 1000 \<le> nPaths st \<and> nPaths st \<le> 10000"

definition client_valid :: "client \<Rightarrow> bool" where
  "client_valid c \<longleftrightarrow>
     inputs_valid (ui c)
     \<and> (case pending c of
          None \<Rightarrow> True
        | Some req \<Rightarrow> \<exists>st. inputs_valid st \<and> req = runSimulation_request st)"

section \<open>The request boundary\<close>

text \<open>
  Modelled from the spec: the request-handling collaborator of the simulation engine
  (request validation and fund lookup, in the backend) is not among the sources; the
  page and its route are its callers. The spec's \<^verbatim>\<open>SimulationRequest\<close> has the fund
  identifier, the initial amount, the monthly contribution, the horizon in years, the
  annual fee and an optional path count.
\<close>

record SimulationRequest =
  fund_identifier :: string
  initial_amount :: number
  monthly_contribution :: number
  horizon_years :: number
  annual_fee :: number
  path_count :: "number option"

text \<open>
  Modelled from the spec: the two rejections of its error taxonomy, "InvalidFund -
  identifier not present in the catalog" and "InvalidParameter - any input outside its
  documented domain".
\<close>

datatype rejection = InvalidFund | InvalidParameter

text \<open>
  Modelled from the spec: the documented domains, "initial amount (\<ge>0), monthly
  contribution (\<ge>0), horizon in years (integer, 1-30), annual fee (decimal fraction,
  0-0.05), optional path count (integer, 1,000-10,000)".
\<close>

definition in_domain :: "SimulationRequest \<Rightarrow> bool" where
  "in_domain q =
     (0 \<le> initial_amount q \<and> 0 \<le> monthly_contribution q
      \<and> of_int \<lfloor>horizon_years q\<rfloor> = horizon_years q
      \<and> 1 \<le> horizon_years q \<and> horizon_years q \<le> 30
      \<and> 0 \<le> annual_fee q \<and> annual_fee q \<le> 5 / 100
      \<and> (case path_count q of
            None \<Rightarrow> True
          | Some n \<Rightarrow> of_int \<lfloor>n\<rfloor> = n \<and> 1000 \<le> n \<and> n \<le> 10000))"

text \<open>
  Modelled from the spec: the request as the boundary reads it from the body that
  \<^verbatim>\<open>runSimulation\<close> posts, member by member under the names the page writes. A body
  that is no object, or lacks a member other than the path count, or holds a member of
  another type, is no request.
\<close>

fun as_string :: "jsval option \<Rightarrow> string option" where
  "as_string (Some (JStr s)) = Some s"
| "as_string v = None"

fun as_number :: "jsval option \<Rightarrow> number option" where
  "as_number (Some (JNum x)) = Some x"
| "as_number v = None"

fun as_optional_number :: "jsval option \<Rightarrow> number option option" where
  "as_optional_number None = Some None"
| "as_optional_number (Some (JNum x)) = Some (Some x)"
| "as_optional_number v = None"

fun read_request :: "jsval \<Rightarrow> SimulationRequest option" where
  "read_request (JObj kvs) =
     do {
       f \<leftarrow> as_string (field kvs ''fund_name'');
       i \<leftarrow> as_number (field kvs ''initial_amount'');
       m \<leftarrow> as_number (field kvs ''monthly_contribution'');
       y \<leftarrow> as_number (field kvs ''years'');
       a \<leftarrow> as_number (field kvs ''annual_fee'');
       n \<leftarrow> as_optional_number (field kvs ''n_paths'');
       Some \<lparr> fund_identifier = f, initial_amount = i, monthly_contribution = m,
              horizon_years = y, annual_fee = a, path_count = n \<rparr>
     }"
| "read_request v = None"

text \<open>
  Modelled from the spec: the boundary. "Invalid values are rejected before engine
  invocation"; an unknown fund identifier is a caller error; the engine receives the
  validated request and "never silently clamps"; "a simulation either completes fully or
  is rejected at the boundary". \<open>catalog\<close> is the fund catalog and \<open>engine\<close> the
  simulation engine; the handler returns the invocations of the engine it made, each with
  the fund and the request handed over, and the rejection or the engine's result.
\<close>

definition request_handler ::
    "(string \<rightharpoonup> 'f) \<Rightarrow> ('f \<Rightarrow> SimulationRequest \<Rightarrow> 'r) \<Rightarrow> jsval
      \<Rightarrow> ('f \<times> SimulationRequest) list \<times> (rejection + 'r)" where
  "request_handler catalog engine received =
     (case read_request received of
        None \<Rightarrow> ([], Inl InvalidParameter)
      | Some q \<Rightarrow>
          if \<not> in_domain q then ([], Inl InvalidParameter)
          else (case catalog (fund_identifier q) of
                  None \<Rightarrow> ([], Inl InvalidFund)
                | Some f \<Rightarrow> ([(f, q)], Inr (engine f q))))"

section \<open>The total contributed\<close>

text \<open>
  C1. For every initial amount \<open>I\<close>, monthly contribution \<open>C\<close> and horizon \<open>Y\<close> held by the
  page, in whatever state the rest of the page is, the total the page computes is
  \<open>I + C \<times> Y \<times> 12\<close> and the footer of the inputs card shows that number, in deterministic
  and in Monte Carlo mode alike.
\<close>

theorem total_contributed_displayed:
  "totalContributed (st\<lparr>initial := I, monthly := C, years := Y, simulationType := t\<rparr>)
     = I + C * Y * 12
   \<and> total_contributed_text
       (inputs (Home (st\<lparr>initial := I, monthly := C, years := Y, simulationType := t\<rparr>)))
     = MadFormat (JNum (I + C * Y * 12))"
  by (simp add: Home_def SimulationInputs_def totalContributed_def)

theorem total_contributed_displayed_witness:
  "total_contributed_text
     (inputs (Home (Home_init\<lparr>initial := 100000, monthly := 3000, years := 5,
                              simulationType := MonteCarlo\<rparr>)))
     = MadFormat (JNum 280000)
   \<and> total_contributed_text
     (inputs (Home (Home_init\<lparr>initial := 100000, monthly := 3000, years := 5,
                              simulationType := Deterministic\<rparr>)))
     = MadFormat (JNum 280000)"
  using total_contributed_displayed
      [where st = Home_init and I = 100000 and C = 3000 and Y = 5 and t = MonteCarlo]
    total_contributed_displayed
      [where st = Home_init and I = 100000 and C = 3000 and Y = 5 and t = Deterministic]
  by simp

section \<open>Reading a result object\<close>

lemma get_opt_member: "get_opt v k = Some (member v k)"
  by (cases v) (simp_all add: member_def get_opt_def)

lemma get_member: "get (JObj kvs) k = Some (member (JObj kvs) k)"
  by (simp add: member_def get_opt_def)

lemma js_or_number: "optional_number v \<Longrightarrow> js_or v (JNum 0) = JNum (number_or_zero v)"
  by (cases v) (simp_all add: js_or_def number_or_zero_def)

lemma optional_numbers_member:
  "optional_numbers keys v \<Longrightarrow> k \<in> set keys \<Longrightarrow> optional_number (member v k)"
  by (cases v) (simp_all add: list_all_iff member_def get_opt_def)

lemma js_coalesce_trajectory:
  "optional_trajectory v \<Longrightarrow>
     js_coalesce v (JArr []) = (case v of JArr points \<Rightarrow> JArr points | _ \<Rightarrow> JArr [])"
  by (cases v) (simp_all add: js_coalesce_def)

lemma DeterministicResults_object:
  assumes "result_object r"
  shows "DeterministicResults r =
     Some \<lparr> det_assumed_annual_return =
              PercentFormat (JNum (number_or_zero (member r ''assumed_annual_return''))),
            det_net_final_value = MadFormat (JNum (number_or_zero (member r ''net_final_value''))),
            det_net_profit_after_tax =
              MadFormat (JNum (number_or_zero (member r ''net_profit_after_tax''))),
            det_tax_paid = MadFormat (JNum (number_or_zero (member r ''tax_paid''))) \<rparr>"
proof -
  from assms obtain kvs where r: "r = JObj kvs"
    by (cases r) (simp_all add: result_object_def)
  let ?keys = "[''assumed_annual_return'', ''years'', ''gross_final_value'', ''net_final_value'',
                ''net_profit_after_tax'', ''tax_paid'', ''total_contributed'',
                ''assumed_annual_vol'', ''n_paths'', ''prob_loss'']"
  have nums: "optional_numbers ?keys r"
    using assms by (simp add: result_object_def r)
  have a: "optional_number (member r ''assumed_annual_return'')"
    by (rule optional_numbers_member [OF nums]) simp
  have b: "optional_number (member r ''net_final_value'')"
    by (rule optional_numbers_member [OF nums]) simp
  have c: "optional_number (member r ''net_profit_after_tax'')"
    by (rule optional_numbers_member [OF nums]) simp
  have d: "optional_number (member r ''tax_paid'')"
    by (rule optional_numbers_member [OF nums]) simp
  show ?thesis
    unfolding DeterministicResults_def r get_member
    using a b c d unfolding r by (simp add: js_or_number)
qed

lemma MonteCarloResults_object:
  assumes "result_object r"
  shows "MonteCarloResults r =
     Some \<lparr> mc_assumed_annual_return =
              PercentFormat (JNum (number_or_zero (member r ''assumed_annual_return''))),
            mc_assumed_annual_vol =
              PercentFormat (JNum (number_or_zero (member r ''assumed_annual_vol''))),
            mc_p5 = MadFormat (JNum (number_or_zero (member (member r ''percentiles'') ''p5''))),
            mc_p50 = MadFormat (JNum (number_or_zero (member (member r ''percentiles'') ''p50''))),
            mc_p95 = MadFormat (JNum (number_or_zero (member (member r ''percentiles'') ''p95''))),
            mc_prob_loss = PercentFormat (JNum (number_or_zero (member r ''prob_loss''))),
            mc_sharpe =
              FixedFormat (number_or_zero (member (member r ''risk_metrics'') ''sharpe'')) 2 \<rparr>"
proof -
  from assms obtain kvs where r: "r = JObj kvs"
    by (cases r) (simp_all add: result_object_def)
  let ?keys = "[''assumed_annual_return'', ''years'', ''gross_final_value'', ''net_final_value'',
                ''net_profit_after_tax'', ''tax_paid'', ''total_contributed'',
                ''assumed_annual_vol'', ''n_paths'', ''prob_loss'']"
  have nums: "optional_numbers ?keys r"
    using assms by (simp add: result_object_def r)
  have pcs: "optional_numbers [''p5'', ''p50'', ''p95''] (member r ''percentiles'')"
    using assms by (simp add: result_object_def r)
  have rms: "optional_numbers
               [''annualized_vol'', ''sharpe'', ''sortino'', ''max_drawdown_mean'', ''calmar'']
               (member r ''risk_metrics'')"
    using assms by (simp add: result_object_def r)
  have a: "optional_number (member r ''assumed_annual_return'')"
    by (rule optional_numbers_member [OF nums]) simp
  have b: "optional_number (member r ''assumed_annual_vol'')"
    by (rule optional_numbers_member [OF nums]) simp
  have c: "optional_number (member r ''prob_loss'')"
    by (rule optional_numbers_member [OF nums]) simp
  have p5: "optional_number (member (member r ''percentiles'') ''p5'')"
    by (rule optional_numbers_member [OF pcs]) simp
  have p50: "optional_number (member (member r ''percentiles'') ''p50'')"
    by (rule optional_numbers_member [OF pcs]) simp
  have p95: "optional_number (member (member r ''percentiles'') ''p95'')"
    by (rule optional_numbers_member [OF pcs]) simp
  have sh: "optional_number (member (member r ''risk_metrics'') ''sharpe'')"
    by (rule optional_numbers_member [OF rms]) simp
  show ?thesis
    unfolding MonteCarloResults_def r get_member get_opt_member
    using a b c p5 p50 p95 sh unfolding r by (simp add: js_or_number)
qed

lemma ProjectionChart_object:
  assumes "result_object r"
  shows "ProjectionChart r Deterministic =
     Some (LineChart (case member r ''trajectory'' of JArr points \<Rightarrow> JArr points
                      | _ \<Rightarrow> JArr []))"
proof -
  from assms obtain kvs where r: "r = JObj kvs"
    by (cases r) (simp_all add: result_object_def)
  have "optional_trajectory (member r ''trajectory'')"
    using assms by (simp add: result_object_def r)
  then show ?thesis
    unfolding ProjectionChart_def r get_opt_member
    by (simp add: js_coalesce_trajectory)
qed

lemma SimulationResults_object:
  assumes "result_object r"
  shows "SimulationResults r t =
     Some (ResultsCard (CardDescription t) (member r ''category'')
            (if t = Deterministic then Mount_DeterministicResults r
             else Mount_MonteCarloResults r))"
proof -
  from assms obtain kvs where r: "r = JObj kvs"
    by (cases r) (simp_all add: result_object_def)
  show ?thesis unfolding SimulationResults_def r get_member by simp
qed

section \<open>What is rendered in each mode\<close>










section \<open>The request\<close>

text \<open>
  C3. In deterministic mode \<^verbatim>\<open>runSimulation\<close> posts to \<^verbatim>\<open>/api/simulate\<close> a body with
  the five members fund_name, initial_amount, monthly_contribution, years and annual_fee
  and no n_paths; in Monte Carlo mode it posts to \<^verbatim>\<open>/api/mc-simulate\<close> a body with the
  same five members, holding the same values, and n_paths after them.
\<close>

theorem request_by_simulation_type:
  "endpoint (runSimulation_request (st\<lparr>simulationType := Deterministic\<rparr>)) = ''/api/simulate''
   \<and> endpoint (runSimulation_request (st\<lparr>simulationType := MonteCarlo\<rparr>)) = ''/api/mc-simulate''
   \<and> http_method (runSimulation_request (st\<lparr>simulationType := Deterministic\<rparr>)) = ''POST''
   \<and> http_method (runSimulation_request (st\<lparr>simulationType := MonteCarlo\<rparr>)) = ''POST''
   \<and> body (runSimulation_request (st\<lparr>simulationType := Deterministic\<rparr>)) =
       JObj [(''fund_name'', JStr (fund st)), (''initial_amount'', JNum (initial st)),
             (''monthly_contribution'', JNum (monthly st)), (''years'', JNum (years st)),
             (''annual_fee'', JNum (fee st))]
   \<and> body (runSimulation_request (st\<lparr>simulationType := MonteCarlo\<rparr>)) =
       JObj [(''fund_name'', JStr (fund st)), (''initial_amount'', JNum (initial st)),
             (''monthly_contribution'', JNum (monthly st)), (''years'', JNum (years st)),
             (''annual_fee'', JNum (fee st)), (''n_paths'', JNum (nPaths st))]
   \<and> get (body (runSimulation_request (st\<lparr>simulationType := Deterministic\<rparr>))) ''n_paths''
       = Some JUndefined
   \<and> get (body (runSimulation_request (st\<lparr>simulationType := MonteCarlo\<rparr>))) ''n_paths''
       = Some (JNum (nPaths st))"
  by (simp add: runSimulation_request_def requestBody_def field_def)

theorem request_by_simulation_type_witness:
  "body (runSimulation_request (Home_init\<lparr>simulationType := MonteCarlo\<rparr>)) =
       JObj [(''fund_name'', JStr ''ATTIJARI ACTIONS''), (''initial_amount'', JNum 100000),
             (''monthly_contribution'', JNum 3000), (''years'', JNum 5),
             (''annual_fee'', JNum (18 / 1000)), (''n_paths'', JNum 5000)]"
  using request_by_simulation_type [of Home_init]
  by (simp add: Home_init_def)

section \<open>The domains of the inputs\<close>

lemma Slider_value_range:
  "lo \<le> hi \<Longrightarrow> lo \<le> Slider_value lo hi step pos \<and> Slider_value lo hi step pos \<le> hi"
  by (simp add: Slider_value_def)

lemma Slider_value_years_int: "Slider_value 1 30 1 pos \<in> \<int>"
  by (simp add: Slider_value_def max_def min_def)

lemma toFixed_number_fee:
  assumes "0 \<le> x" "x \<le> 5 / 100"
  shows "0 \<le> toFixed_number x 3 \<and> toFixed_number x 3 \<le> 5 / 100"
proof -
  have "round (0::real) \<le> round (x * 1000)"
    using assms(1) by (intro round_mono) simp
  then have lo: "0 \<le> round (x * 1000)" by simp
  have "round (x * 1000) \<le> round (50::real)"
    using assms(2) by (intro round_mono) simp
  then have hi: "round (x * 1000) \<le> 50" by simp
  have small: "\<not> \<bar>x\<bar> \<ge> 10 ^ 21" using assms by simp
  have eq: "toFixed_number x 3 = of_int (round (x * 1000)) / 1000"
    using assms(1) small by (simp add: toFixed_number_def)
  have "(0::real) \<le> of_int (round (x * 1000))" using lo by simp
  moreover have "of_int (round (x * 1000)) \<le> (50::real)" using hi by linarith
  ultimately show ?thesis unfolding eq by simp
qed

lemma Home_init_valid: "inputs_valid Home_init"
  by (simp add: inputs_valid_def Home_init_def FUNDS_def)

lemma client_init_valid: "client_valid client_init"
  by (simp add: client_valid_def client_init_def Home_init_valid)

lemma handle_valid: "client_valid c \<Longrightarrow> client_valid (handle c ev)"
proof (cases ev)
  case (FeeSlide pos)
  assume "client_valid c"
  moreover have "0 \<le> toFixed_number (Slider_value 0 (5 / 100) (1 / 1000) pos) 3
      \<and> toFixed_number (Slider_value 0 (5 / 100) (1 / 1000) pos) 3 \<le> 5 / 100"
    using Slider_value_range [of 0 "5 / 100" "1 / 1000" pos]
    by (intro toFixed_number_fee) simp_all
  ultimately show ?thesis
    using FeeSlide by (simp add: client_valid_def inputs_valid_def)
next
  case (YearsSlide pos)
  assume "client_valid c"
  then show ?thesis
    using YearsSlide Slider_value_range [of 1 30 1 pos] Slider_value_years_int [of pos]
    by (simp add: client_valid_def inputs_valid_def)
next
  case (NPathsSlide pos)
  assume "client_valid c"
  then show ?thesis
    using NPathsSlide Slider_value_range [of 1000 10000 500 pos]
    by (simp add: client_valid_def inputs_valid_def)
next
  case RunClick
  assume "client_valid c"
  then show ?thesis
    using RunClick by (auto simp add: client_valid_def inputs_valid_def runSimulation_begin_def)
qed (auto simp add: client_valid_def inputs_valid_def handleSimulationTypeChange_def
       SimulationInputs_handleSimulationTypeChange_def runSimulation_resolve_def
       runSimulation_reject_def split: option.splits)

lemma run_valid: "client_valid c \<Longrightarrow> client_valid (run evs c)"
  unfolding run_def by (induction evs arbitrary: c) (simp_all add: handle_valid)

text \<open>
  C4. Whatever the user does with the controls, starting from the page's initial state,
  every request \<^verbatim>\<open>runSimulation\<close> sends (it is in flight right after the click that
  sends it) names a fund of the eleven-entry list
  \<open>FUNDS\<close>, a whole number of years from 1 to 30 and an annual fee from 0 to 0.05; a
  request to the Monte Carlo endpoint also carries a path count from 1,000 to 10,000, and
  any other request goes to the deterministic endpoint and carries none.
\<close>

theorem requests_within_domains:
  assumes "pending (run evs client_init) = Some req"
  shows "length FUNDS = 11
    \<and> (\<exists>k y f. get (body req) ''fund_name'' = Some (JStr k) \<and> k \<in> set FUNDS
          \<and> get (body req) ''years'' = Some (JNum y) \<and> y \<in> \<int> \<and> 1 \<le> y \<and> y \<le> 30
          \<and> get (body req) ''annual_fee'' = Some (JNum f) \<and> 0 \<le> f \<and> f \<le> 5 / 100)
    \<and> (if endpoint req = ''/api/mc-simulate''
        then \<exists>n. get (body req) ''n_paths'' = Some (JNum n) \<and> 1000 \<le> n \<and> n \<le> 10000
        else endpoint req = ''/api/simulate'' \<and> get (body req) ''n_paths'' = Some JUndefined)"
proof -
  have "client_valid (run evs client_init)"
    using run_valid [OF client_init_valid] .
  with assms obtain st where st: "inputs_valid st" and req: "req = runSimulation_request st"
    by (auto simp add: client_valid_def)
  have len: "length FUNDS = 11" by (simp add: FUNDS_def)
  show ?thesis
    using st len unfolding req
    by (cases "simulationType st")
       (simp_all add: inputs_valid_def runSimulation_request_def requestBody_def field_def)
qed

theorem requests_within_domains_witness:
  "pending (run [YearsSlide 100, FeeSlide (- 1), TypeClick MonteCarlo, NPathsSlide 50000, RunClick]
             client_init)
    = Some \<lparr> endpoint = ''/api/mc-simulate'', http_method = ''POST'',
             headers = [(''Content-Type'', ''application/json'')],
             body = JObj [(''fund_name'', JStr ''ATTIJARI ACTIONS''),
                          (''initial_amount'', JNum 100000),
                          (''monthly_contribution'', JNum 3000), (''years'', JNum 30),
                          (''annual_fee'', JNum 0), (''n_paths'', JNum 10000)] \<rparr>
   \<and> get (JObj [(''fund_name'', JStr ''ATTIJARI ACTIONS''),
                (''initial_amount'', JNum 100000),
                (''monthly_contribution'', JNum 3000), (''years'', JNum 30),
                (''annual_fee'', JNum 0), (''n_paths'', JNum 10000)]) ''n_paths''
    = Some (JNum 10000)"
proof -
  have p: "pending (run [YearsSlide 100, FeeSlide (- 1), TypeClick MonteCarlo, NPathsSlide 50000,
                        RunClick] client_init)
    = Some \<lparr> endpoint = ''/api/mc-simulate'', http_method = ''POST'',
             headers = [(''Content-Type'', ''application/json'')],
             body = JObj [(''fund_name'', JStr ''ATTIJARI ACTIONS''),
                          (''initial_amount'', JNum 100000),
                          (''monthly_contribution'', JNum 3000), (''years'', JNum 30),
                          (''annual_fee'', JNum 0), (''n_paths'', JNum 10000)] \<rparr>"
    by (simp add: run_def client_init_def Home_init_def handleSimulationTypeChange_def
        SimulationInputs_handleSimulationTypeChange_def runSimulation_begin_def
        runSimulation_request_def requestBody_def Slider_value_def
        toFixed_number_def)
  show ?thesis
    using p requests_within_domains [OF p] by (simp add: field_def)
qed

section \<open>Negative amounts\<close>

lemma read_request_requestBody:
  "read_request (requestBody st) =
     Some \<lparr> fund_identifier = fund st, initial_amount = initial st,
            monthly_contribution = monthly st, horizon_years = home_state.years st,
            annual_fee = fee st,
            path_count = (if simulationType st = MonteCarlo then Some (nPaths st) else None) \<rparr>"
  by (simp add: requestBody_def field_def)

text \<open>
  C5. A request with a negative initial amount or a negative monthly contribution is
  rejected at the boundary as InvalidParameter, and the engine is not invoked for it: so
  it is for every request the boundary reads, and so for the body \<^verbatim>\<open>runSimulation\<close>
  posts from any state of the page that holds a negative amount, and for the request
  that is in flight after a negative amount has been typed into either input and the run
  button clicked: its body holds the amounts as typed. Nothing is clamped:
  whenever the engine is invoked, it is invoked once, with the very request that was read,
  whose amounts are not negative.
\<close>

theorem negative_amounts_rejected:
  "(read_request b = Some q \<longrightarrow> initial_amount q < 0 \<or> monthly_contribution q < 0
      \<longrightarrow> request_handler catalog engine b = ([], Inl InvalidParameter))
   \<and> (initial st < 0 \<or> monthly st < 0
      \<longrightarrow> request_handler catalog engine (body (runSimulation_request st))
            = ([], Inl InvalidParameter))
   \<and> (\<not> loading (ui c) \<longrightarrow> x < 0 \<or> y < 0
      \<longrightarrow> (\<exists>req. pending (run [InitialInput x, MonthlyInput y, RunClick] c) = Some req
            \<and> get (body req) ''initial_amount'' = Some (JNum x)
            \<and> get (body req) ''monthly_contribution'' = Some (JNum y)
            \<and> request_handler catalog engine (body req) = ([], Inl InvalidParameter)))
   \<and> (fst (request_handler catalog engine b') \<noteq> []
      \<longrightarrow> (\<exists>q' f. read_request b' = Some q' \<and> in_domain q'
            \<and> 0 \<le> initial_amount q' \<and> 0 \<le> monthly_contribution q'
            \<and> catalog (fund_identifier q') = Some f
            \<and> request_handler catalog engine b' = ([(f, q')], Inr (engine f q'))))"
proof -
  have 1: "read_request b = Some q \<longrightarrow> initial_amount q < 0 \<or> monthly_contribution q < 0
      \<longrightarrow> request_handler catalog engine b = ([], Inl InvalidParameter)"
    by (auto simp: request_handler_def in_domain_def)
  have 2: "initial st < 0 \<or> monthly st < 0
      \<longrightarrow> request_handler catalog engine (body (runSimulation_request st))
            = ([], Inl InvalidParameter)"
    by (auto simp: request_handler_def in_domain_def runSimulation_request_def
        read_request_requestBody)
  have 3: "fst (request_handler catalog engine b') \<noteq> []
      \<longrightarrow> (\<exists>q' f. read_request b' = Some q' \<and> in_domain q'
            \<and> 0 \<le> initial_amount q' \<and> 0 \<le> monthly_contribution q'
            \<and> catalog (fund_identifier q') = Some f
            \<and> request_handler catalog engine b' = ([(f, q')], Inr (engine f q')))"
    by (auto simp: request_handler_def in_domain_def split: option.splits if_splits)
  have 4: "\<not> loading (ui c) \<longrightarrow> x < 0 \<or> y < 0
      \<longrightarrow> (\<exists>req. pending (run [InitialInput x, MonthlyInput y, RunClick] c) = Some req
            \<and> get (body req) ''initial_amount'' = Some (JNum x)
            \<and> get (body req) ''monthly_contribution'' = Some (JNum y)
            \<and> request_handler catalog engine (body req) = ([], Inl InvalidParameter))"
    by (auto simp: run_def runSimulation_begin_def runSimulation_request_def
        request_handler_def in_domain_def read_request_requestBody)
      (simp_all add: requestBody_def field_def)
  show ?thesis
    using 1 2 3 4 by blast
qed

theorem negative_amounts_rejected_witness:
  "read_request (requestBody (Home_init\<lparr>initial := - 5000\<rparr>))
     = Some \<lparr> fund_identifier = ''ATTIJARI ACTIONS'', initial_amount = - 5000,
              monthly_contribution = 3000, horizon_years = 5, annual_fee = 18 / 1000,
              path_count = None \<rparr>
   \<and> request_handler (\<lambda>name. if name \<in> set FUNDS then Some name else None)
       (\<lambda>f q. initial_amount q)
       (body (runSimulation_request (Home_init\<lparr>initial := - 5000\<rparr>)))
     = ([], Inl InvalidParameter)
   \<and> request_handler (\<lambda>name. if name \<in> set FUNDS then Some name else None)
       (\<lambda>f q. initial_amount q)
       (body (runSimulation_request Home_init))
     = ([(''ATTIJARI ACTIONS'',
          \<lparr> fund_identifier = ''ATTIJARI ACTIONS'', initial_amount = 100000,
            monthly_contribution = 3000, horizon_years = 5, annual_fee = 18 / 1000,
            path_count = None \<rparr>)],
        Inr 100000)
   \<and> \<not> loading (ui client_init)
   \<and> map_option
       (\<lambda>req. request_handler (\<lambda>name. if name \<in> set FUNDS then Some name else None)
          (\<lambda>f q. initial_amount q) (body req))
       (pending (run [InitialInput (- 5000), MonthlyInput (- 100), RunClick] client_init))
     = Some ([], Inl InvalidParameter)"
proof -
  have l: "\<not> loading (ui client_init)"
    by (simp add: client_init_def Home_init_def)
  have r: "read_request (requestBody (Home_init\<lparr>initial := - 5000\<rparr>))
     = Some \<lparr> fund_identifier = ''ATTIJARI ACTIONS'', initial_amount = - 5000,
              monthly_contribution = 3000, horizon_years = 5, annual_fee = 18 / 1000,
              path_count = None \<rparr>"
    by (simp add: read_request_requestBody Home_init_def)
  have n: "initial (Home_init\<lparr>initial := - 5000\<rparr>) < 0"
    by simp
  have v: "fst (request_handler (\<lambda>name. if name \<in> set FUNDS then Some name else None)
       (\<lambda>f q. initial_amount q) (body (runSimulation_request Home_init))) \<noteq> []"
    by (simp add: request_handler_def in_domain_def runSimulation_request_def
        read_request_requestBody Home_init_def FUNDS_def)
  have q: "read_request (body (runSimulation_request Home_init))
     = Some \<lparr> fund_identifier = ''ATTIJARI ACTIONS'', initial_amount = 100000,
              monthly_contribution = 3000, horizon_years = 5, annual_fee = 18 / 1000,
              path_count = None \<rparr>"
    by (simp add: runSimulation_request_def read_request_requestBody Home_init_def)
  show ?thesis
    using r n v q l
      negative_amounts_rejected
        [where b = "requestBody (Home_init\<lparr>initial := - 5000\<rparr>)"
           and q = "\<lparr> fund_identifier = ''ATTIJARI ACTIONS'', initial_amount = - 5000,
              monthly_contribution = 3000, horizon_years = 5, annual_fee = 18 / 1000,
              path_count = None \<rparr>"
           and st = "Home_init\<lparr>initial := - 5000\<rparr>"
           and b' = "body (runSimulation_request Home_init)"
           and c = client_init and x = "- 5000" and y = "- 100"
           and catalog = "\<lambda>name. if name \<in> set FUNDS then Some name else None"
           and engine = "\<lambda>f q. initial_amount q"]
    by (auto simp: FUNDS_def)
qed

section \<open>The shape of a result\<close>











lemma optional_number_cases [simp]:
  "optional_number (case v of None \<Rightarrow> JUndefined | Some x \<Rightarrow> JNum x)"
  by (cases v) simp_all










section \<open>The order of the percentiles\<close>

lemma interpolate_bounds:
  fixes s :: "real list"
  assumes srt: "sorted s" and n: "length s > 0"
    and h0: "0 \<le> h" and h1: "h \<le> real (length s - 1)"
  shows "s ! nat \<lfloor>h\<rfloor> \<le> interpolate s h"
    and "interpolate s h \<le> s ! min (nat \<lfloor>h\<rfloor> + 1) (length s - 1)"
proof -
  let ?l = "nat \<lfloor>h\<rfloor>" and ?u = "min (nat \<lfloor>h\<rfloor> + 1) (length s - 1)"
  have fl: "real ?l = of_int \<lfloor>h\<rfloor>" using h0 by simp
  have t0: "0 \<le> h - real ?l" and t1: "h - real ?l \<le> 1" unfolding fl by linarith+
  have "\<lfloor>h\<rfloor> \<le> int (length s - 1)" using h1 by (simp add: floor_le_iff)
  then have l: "?l \<le> length s - 1" by linarith
  have u: "?u < length s" using n by linarith
  have lu: "?l \<le> ?u" using l by simp
  have d0: "0 \<le> s ! ?u - s ! ?l" using sorted_nth_mono [OF srt lu u] by simp
  show "s ! ?l \<le> interpolate s h"
    unfolding interpolate_def Let_def using mult_nonneg_nonneg [OF t0 d0] by simp
  have "(h - real ?l) * (s ! ?u - s ! ?l) \<le> 1 * (s ! ?u - s ! ?l)"
    using mult_right_mono [OF t1 d0] .
  then show "interpolate s h \<le> s ! ?u" unfolding interpolate_def Let_def by simp
qed

lemma interpolate_mono:
  fixes s :: "real list"
  assumes srt: "sorted s" and n: "length s > 0"
    and h1: "0 \<le> h1" and h12: "h1 \<le> h2" and h2: "h2 \<le> real (length s - 1)"
  shows "interpolate s h1 \<le> interpolate s h2"
proof -
  let ?l1 = "nat \<lfloor>h1\<rfloor>" and ?l2 = "nat \<lfloor>h2\<rfloor>"
  let ?u1 = "min (?l1 + 1) (length s - 1)" and ?u2 = "min (?l2 + 1) (length s - 1)"
  have h2_0: "0 \<le> h2" and h1_n: "h1 \<le> real (length s - 1)"
    using h1 h12 h2 by linarith+
  have l12: "?l1 \<le> ?l2" using h12 by (simp add: floor_mono nat_mono)
  have "\<lfloor>h2\<rfloor> \<le> int (length s - 1)" using h2 by (simp add: floor_le_iff)
  then have l2: "?l2 \<le> length s - 1" by linarith
  show ?thesis
  proof (cases "?l1 = ?l2")
    case True
    have u: "?u2 < length s" using n by linarith
    have lu: "?l2 \<le> ?u2" using l2 by simp
    have d0: "0 \<le> s ! ?u2 - s ! ?l2" using sorted_nth_mono [OF srt lu u] by simp
    have "(h1 - real ?l2) * (s ! ?u2 - s ! ?l2) \<le> (h2 - real ?l2) * (s ! ?u2 - s ! ?l2)"
      using h12 by (intro mult_right_mono d0) simp
    then show ?thesis unfolding interpolate_def Let_def True by simp
  next
    case False
    with l12 have "?l1 + 1 \<le> ?l2" by simp
    then have "?u1 \<le> ?l2" by simp
    moreover have "?l2 < length s" using l2 n by linarith
    ultimately have "s ! ?u1 \<le> s ! ?l2" using sorted_nth_mono [OF srt] by blast
    moreover have "interpolate s h1 \<le> s ! ?u1"
      using interpolate_bounds(2) [OF srt n h1 h1_n] .
    moreover have "s ! ?l2 \<le> interpolate s h2"
      using interpolate_bounds(1) [OF srt n h2_0 h2] .
    ultimately show ?thesis by linarith
  qed
qed

lemma percentile_mono:
  assumes "finals \<noteq> []" "0 \<le> q1" "q1 \<le> q2" "q2 \<le> 1"
  shows "percentile finals q1 \<le> percentile finals q2"
proof -
  have n: "length (sort finals) > 0" using assms(1) by simp
  have a: "0 \<le> q1 * real (length finals - 1)" using assms(2) by simp
  have b: "q1 * real (length finals - 1) \<le> q2 * real (length finals - 1)"
    using assms(3) by (simp add: mult_right_mono)
  have c: "q2 * real (length finals - 1) \<le> real (length (sort finals) - 1)"
    using assms(4) mult_right_mono [of q2 1 "real (length finals - 1)"] by simp
  show ?thesis
    unfolding percentile_def using interpolate_mono [OF sorted_sort n a b c] .
qed

text \<open>
  C7. For every Monte Carlo run, that is for every ensemble of at least one path, the
  aggregator reports percentiles, and they are in order: p5 is at most p50 and p50 at
  most p95.
\<close>

theorem percentiles_ordered:
  assumes "finals \<noteq> []"
  shows "\<exists>pc. risk_percentiles finals = Some pc \<and> p5 pc \<le> p50 pc \<and> p50 pc \<le> p95 pc"
  using assms percentile_mono [of finals "5 / 100" "50 / 100"]
    percentile_mono [of finals "50 / 100" "95 / 100"]
  by (simp add: risk_percentiles_def)

theorem percentiles_ordered_witness:
  "[3, 1, 2 :: real] \<noteq> []
   \<and> (\<exists>pc. risk_percentiles [3, 1, 2] = Some pc \<and> p5 pc \<le> p50 pc \<and> p50 pc \<le> p95 pc)"
  using percentiles_ordered [of "[3, 1, 2]"] by simp

section \<open>The route handler\<close>

subsection \<open>Rounding to a double\<close>

lemma round_half_even_of_int [simp]: "round_half_even (of_int n) = n"
  by (simp add: round_half_even_def)

lemma round_half_even_ge: "of_int a \<le> y \<Longrightarrow> a \<le> round_half_even y"
proof -
  assume "of_int a \<le> y"
  then have "a \<le> \<lfloor>y\<rfloor>" by (simp add: le_floor_iff)
  then show ?thesis by (simp add: round_half_even_def Let_def)
qed

lemma round_half_even_le: "y \<le> of_int b \<Longrightarrow> round_half_even y \<le> b"
proof -
  assume y: "y \<le> of_int b"
  then have fl: "\<lfloor>y\<rfloor> \<le> b" by (simp add: floor_le_iff)
  show ?thesis
  proof (cases "y = of_int \<lfloor>y\<rfloor>")
    case True
    then have "round_half_even y = \<lfloor>y\<rfloor>"
      by (metis round_half_even_of_int)
    with fl show ?thesis by simp
  next
    case False
    then have "of_int \<lfloor>y\<rfloor> < y" using of_int_floor_le [of y] by arith
    then have "of_int \<lfloor>y\<rfloor> < (of_int b :: real)" using y by linarith
    then have "\<lfloor>y\<rfloor> < b" by simp
    then show ?thesis by (simp add: round_half_even_def Let_def)
  qed
qed

lemma pow2_add: "(2::real) powr of_int (a + b) = 2 powr of_int a * 2 powr of_int b"
  by (simp add: powr_add)

lemma double_near_fixed:
  assumes y: "0 < y" and d: "0 < double_near y"
  shows "double_near (double_near y) = double_near y"
proof -
  define k where "k = \<lfloor>log 2 y\<rfloor>"
  define e where "e = max k (- 1022)"
  define u where "u = (2::real) powr of_int (e - 52)"
  define m where "m = round_half_even (y / u)"
  have dn: "double_near y = of_int m * u"
    by (simp add: double_near_def Let_def k_def e_def u_def m_def)
  have u0: "0 < u" by (simp add: u_def)
  have ky: "2 powr of_int k \<le> y" "y < 2 powr of_int (k + 1)"
    using floor_log_eq_powr_iff [of y 2 k] y by (simp_all add: k_def)
  have e_ge: "k \<le> e" "- 1022 \<le> e" by (simp_all add: e_def)
  have up: "2 powr of_int (e + 1) = 2 ^ 53 * u"
  proof -
    have "(2::real) powr of_int (e + 1) = 2 powr of_int (53 + (e - 52))"
      by (rule arg_cong [where f = "\<lambda>i. 2 powr of_int i"]) simp
    also have "\<dots> = 2 powr of_int 53 * u" unfolding u_def by (rule pow2_add)
    finally show ?thesis by simp
  qed
  have ue: "2 powr of_int e = 2 ^ 52 * u"
  proof -
    have "(2::real) powr of_int e = 2 powr of_int (52 + (e - 52))"
      by (rule arg_cong [where f = "\<lambda>i. 2 powr of_int i"]) simp
    also have "\<dots> = 2 powr of_int 52 * u" unfolding u_def by (rule pow2_add)
    finally show ?thesis by simp
  qed
  have "y < 2 powr of_int (e + 1)"
    using ky(2) e_ge(1) by (smt (verit) of_int_le_iff powr_le_cancel_iff of_int_add of_int_1)
  then have "y / u < 2 ^ 53" using u0 up by (simp add: field_simps)
  then have "y / u \<le> of_int (2 ^ 53)" by simp
  then have m_le: "m \<le> 2 ^ 53" unfolding m_def by (rule round_half_even_le)
  have m_pos: "0 < m" using d u0 dn by (simp add: zero_less_mult_iff)
  have m_ge: "2 ^ 52 \<le> m" if "- 1022 \<le> k"
  proof -
    from that have "e = k" by (simp add: e_def)
    then have "2 ^ 52 * u \<le> y" using ky(1) ue by simp
    then have "of_int (2 ^ 52) \<le> y / u" using u0 by (simp add: field_simps)
    then show ?thesis unfolding m_def by (rule round_half_even_ge)
  qed
  let ?d = "of_int m * u"
  have d0: "0 < ?d" using m_pos u0 by simp
  consider (normal) "2 ^ 52 \<le> m" "m < 2 ^ 53" | (top) "m = 2 ^ 53" | (sub) "m < 2 ^ 52"
    using m_le by linarith
  then have "double_near ?d = ?d"
  proof cases
    case normal
    have "2 powr of_int e \<le> ?d"
      unfolding ue using normal(1) u0 by simp
    moreover have "?d < 2 powr of_int (e + 1)"
      unfolding up using normal(2) u0 by simp
    ultimately have "\<lfloor>log 2 ?d\<rfloor> = e"
      using floor_log_eq_powr_iff [of ?d 2 e] d0 by simp
    then have mx: "max \<lfloor>log 2 ?d\<rfloor> (- 1022) = e" using e_ge(2) by simp
    have "double_near ?d = of_int (round_half_even (?d / u)) * u"
      unfolding double_near_def Let_def mx by (simp only: u_def)
    moreover have "?d / u = of_int m" using u0 by simp
    ultimately show ?thesis by (simp only: round_half_even_of_int)
  next
    case top
    have eq: "?d = 2 powr of_int (e + 1)" unfolding up top by simp
    have "2 powr of_int (e + 1) \<le> ?d" "?d < 2 powr of_int (e + 1 + 1)"
      unfolding eq by simp_all
    then have "\<lfloor>log 2 ?d\<rfloor> = e + 1"
      using floor_log_eq_powr_iff [of ?d 2 "e + 1"] d0 by simp
    then have mx: "max \<lfloor>log 2 ?d\<rfloor> (- 1022) = e + 1" using e_ge(2) by simp
    have u2: "(2::real) powr of_int (e + 1 - 52) = 2 * u"
    proof -
      have "(2::real) powr of_int (e + 1 - 52) = 2 powr of_int (1 + (e - 52))"
        by (rule arg_cong [where f = "\<lambda>i. 2 powr of_int i"]) simp
      also have "\<dots> = 2 powr of_int 1 * u" unfolding u_def by (rule pow2_add)
      finally show ?thesis by simp
    qed
    have "double_near ?d = of_int (round_half_even (?d / (2 * u))) * (2 * u)"
      unfolding double_near_def Let_def mx by (simp only: u2)
    moreover have "?d / (2 * u) = of_int (2 ^ 52)" using u0 top by simp
    ultimately have "double_near ?d = of_int (2 ^ 52) * (2 * u)"
      by (simp only: round_half_even_of_int)
    then show ?thesis using top by simp
  next
    case sub
    have k_lt: "k < - 1022" using m_ge sub by linarith
    then have e_eq: "e = - 1022" by (simp add: e_def)
    have "?d < 2 powr of_int e" unfolding ue using sub u0 by simp
    then have "log 2 ?d < of_int e"
      using d0 by (simp add: log_less_iff)
    then have "\<lfloor>log 2 ?d\<rfloor> < e" by (simp add: floor_less_iff)
    then have mx: "max \<lfloor>log 2 ?d\<rfloor> (- 1022) = e" using e_eq by simp
    have "double_near ?d = of_int (round_half_even (?d / u)) * u"
      unfolding double_near_def Let_def mx by (simp only: u_def)
    moreover have "?d / u = of_int m" using u0 by simp
    ultimately show ?thesis by (simp only: round_half_even_of_int)
  qed
  then show ?thesis unfolding dn .
qed

lemma double_near_nonneg: "0 < y \<Longrightarrow> 0 \<le> double_near y"
proof -
  assume "0 < y"
  then have "of_int 0 \<le> y / 2 powr of_int (max \<lfloor>log 2 y\<rfloor> (- 1022) - 52)" by simp
  then have "0 \<le> round_half_even (y / 2 powr of_int (max \<lfloor>log 2 y\<rfloor> (- 1022) - 52))"
    by (rule round_half_even_ge)
  then show ?thesis by (simp add: double_near_def Let_def)
qed

lemma to_double_fixed:
  assumes "to_double x = Finite d"
  shows "to_double d = Finite d"
proof (cases "x = 0")
  case True
  with assms show ?thesis by (simp add: to_double_def)
next
  case False
  show ?thesis
  proof (cases "0 < x")
    case True
    with assms False have d: "d = double_near x" and small: "\<not> 2 ^ 1024 \<le> double_near x"
      by (simp_all add: to_double_def split: if_splits)
    show ?thesis
    proof (cases "d = 0")
      case True
      then show ?thesis by (simp add: to_double_def)
    next
      case False
      with double_near_nonneg [OF True] d have "0 < double_near x" by simp
      from double_near_fixed [OF True this] this small show ?thesis
        unfolding d by (simp add: to_double_def)
    qed
  next
    case neg: False
    with False have x: "0 < - x" by simp
    from assms False neg have d: "d = - double_near (- x)"
      and small: "\<not> 2 ^ 1024 \<le> double_near (- x)"
      by (simp_all add: to_double_def split: if_splits)
    show ?thesis
    proof (cases "d = 0")
      case True
      then show ?thesis by (simp add: to_double_def)
    next
      case False
      with double_near_nonneg [OF x] d have "0 < double_near (- x)" by simp
      from double_near_fixed [OF x this] this small show ?thesis
        unfolding d by (simp add: to_double_def)
    qed
  qed
qed


lemma double_near_in_binade:
  assumes "2 powr of_int k \<le> y" "y < 2 powr of_int (k + 1)" "- 1022 \<le> k"
  shows "double_near y =
     of_int (round_half_even (y / 2 powr of_int (k - 52))) * 2 powr of_int (k - 52)"
proof -
  have "0 < y" using assms(1) by (smt (verit) powr_gt_zero)
  then have "\<lfloor>log 2 y\<rfloor> = k"
    using floor_log_eq_powr_iff [of y 2 k] assms by simp
  then have "max \<lfloor>log 2 y\<rfloor> (- 1022) = k" using assms(3) by simp
  then show ?thesis by (simp only: double_near_def Let_def)
qed

lemma double_near_overflow:
  assumes "2 ^ 1024 \<le> y"
  shows "2 ^ 1024 \<le> double_near y"
proof -
  have y: "0 < y" using assms by (smt (verit) zero_less_power)
  define k where "k = \<lfloor>log 2 y\<rfloor>"
  have ky: "2 powr of_int k \<le> y" "y < 2 powr of_int (k + 1)"
    using floor_log_eq_powr_iff [of y 2 k] y by (simp_all add: k_def)
  have p: "(2::real) powr of_int 1024 = 2 ^ 1024" by simp
  have lt: "(2::real) powr of_int 1024 < 2 powr of_int (k + 1)"
    unfolding p using assms ky(2) by linarith
  have k: "1024 \<le> k"
  proof (rule ccontr)
    assume "\<not> 1024 \<le> k"
    then have "(of_int (k + 1) :: real) \<le> of_int 1024" by simp
    then have "(2::real) powr of_int (k + 1) \<le> 2 powr of_int 1024"
      by (intro powr_mono) simp_all
    with lt show False by linarith
  qed
  define u where "u = (2::real) powr of_int (k - 52)"
  have u0: "0 < u" by (simp add: u_def)
  have ue: "2 powr of_int k = 2 ^ 52 * u"
  proof -
    have "(2::real) powr of_int k = 2 powr of_int (52 + (k - 52))"
      by (rule arg_cong [where f = "\<lambda>i. 2 powr of_int i"]) simp
    also have "\<dots> = 2 powr of_int 52 * u" unfolding u_def by (rule pow2_add)
    finally show ?thesis by simp
  qed
  have dn: "double_near y = of_int (round_half_even (y / u)) * u"
    unfolding u_def using k by (intro double_near_in_binade ky) simp
  have "of_int (2 ^ 52) \<le> y / u" using ky(1) ue u0 by (simp add: field_simps)
  then have "2 ^ 52 \<le> round_half_even (y / u)" by (rule round_half_even_ge)
  then have "(2 ^ 52 :: real) \<le> of_int (round_half_even (y / u))"
    by (metis of_int_le_iff of_int_numeral of_int_power)
  then have "2 ^ 52 * u \<le> double_near y" unfolding dn using u0 by simp
  moreover have "(2::real) powr of_int 1024 \<le> 2 powr of_int k"
    using k by (intro powr_mono) simp_all
  ultimately show ?thesis unfolding p ue [symmetric] by linarith
qed

lemma to_double_beyond_range: "2 ^ 1024 \<le> x \<Longrightarrow> to_double x = PlusInfinity"
proof -
  assume x: "2 ^ 1024 \<le> x"
  then have "0 < x" by (smt (verit) zero_less_power)
  with double_near_overflow [OF x] show ?thesis by (simp add: to_double_def)
qed

lemma to_double_2_53_plus_1: "to_double 9007199254740993 = Finite 9007199254740992"
proof -
  have "double_near 9007199254740993 =
     of_int (round_half_even (9007199254740993 / 2 powr of_int (53 - 52))) * 2 powr of_int (53 - 52)"
    by (rule double_near_in_binade) simp_all
  also have "\<dots> = 9007199254740992"
    by (simp add: round_half_even_def Let_def)
  finally show ?thesis by (simp add: to_double_def)
qed

subsection \<open>Parsing and writing\<close>

lemma set_insert_property [simp]: "set (insert_property k v ps) = insert (k, v) (set ps)"
  by (induction ps) auto

lemma sorted_insert_property:
  "sorted (map (rank \<circ> fst) ps) \<Longrightarrow> sorted (map (rank \<circ> fst) (insert_property k v ps))"
  by (induction ps) auto

lemma distinct_insert_property:
  "distinct (map fst ps) \<Longrightarrow> k \<notin> fst ` set ps \<Longrightarrow> distinct (map fst (insert_property k v ps))"
  by (induction ps) auto

lemma map_fst_replace:
  "map fst (map (\<lambda>p. if fst p = k then (fst p, v) else p) ps) = map fst ps"
  by (induction ps) auto

lemma ordered_put_property:
  "ordered_properties ps \<Longrightarrow> ordered_properties (put_property ps kv)"
proof (cases "fst kv \<in> fst ` set ps")
  case True
  assume "ordered_properties ps"
  moreover have "map (rank \<circ> fst) (map (\<lambda>p. if fst p = fst kv then (fst p, snd kv) else p) ps)
      = map (rank \<circ> fst) ps"
    by (induction ps) auto
  ultimately show ?thesis
    using True by (simp add: ordered_properties_def put_property_def map_fst_replace del: map_map)
next
  case False
  assume "ordered_properties ps"
  then show ?thesis
    using False sorted_insert_property [of ps "fst kv" "snd kv"]
      distinct_insert_property [of ps "fst kv" "snd kv"]
    by (simp add: ordered_properties_def put_property_def)
qed

lemma snd_put_property:
  "snd ` set (put_property ps kv) \<subseteq> insert (snd kv) (snd ` set ps)"
  by (auto simp: put_property_def)

lemma foldl_put_property:
  "ordered_properties acc \<Longrightarrow> list_all (\<lambda>p. Q (snd p)) acc \<Longrightarrow> list_all (\<lambda>p. Q (snd p)) kvs
    \<Longrightarrow> ordered_properties (foldl put_property acc kvs)
      \<and> list_all (\<lambda>p. Q (snd p)) (foldl put_property acc kvs)"
proof (induction kvs arbitrary: acc)
  case Nil
  then show ?case by simp
next
  case (Cons kv kvs)
  have "list_all (\<lambda>p. Q (snd p)) (put_property acc kv)"
    using snd_put_property [of acc kv] Cons.prems
    unfolding list_all_iff by (fastforce simp: image_subset_iff)
  then show ?case
    using Cons ordered_put_property [of acc kv] by simp
qed

lemma properties_ordered:
  "list_all (\<lambda>p. Q (snd p)) kvs
    \<Longrightarrow> ordered_properties (properties kvs) \<and> list_all (\<lambda>p. Q (snd p)) (properties kvs)"
  unfolding properties_def
  by (rule foldl_put_property) (simp_all add: ordered_properties_def)

lemma insert_property_last:
  "\<forall>p \<in> set ps. rank (fst p) \<le> rank k \<Longrightarrow> insert_property k v ps = ps @ [(k, v)]"
  by (induction ps) auto

lemma foldl_put_property_snoc:
  "foldl put_property [] (ps @ [p]) = put_property (foldl put_property [] ps) p"
  by simp

lemma properties_fixed: "ordered_properties ps \<Longrightarrow> properties ps = ps"
proof (induction ps rule: rev_induct)
  case Nil
  then show ?case by (simp add: properties_def)
next
  case (snoc p ps)
  have o: "ordered_properties ps" and k: "fst p \<notin> fst ` set ps"
    and r: "\<forall>q \<in> set ps. rank (fst q) \<le> rank (fst p)"
    using snoc.prems by (auto simp: ordered_properties_def sorted_append)
  have "properties (ps @ [p]) = put_property (properties ps) p"
    by (simp add: properties_def)
  also have "\<dots> = put_property ps p"
    using snoc.IH o by simp
  also have "\<dots> = ps @ [p]"
    using k r by (simp add: put_property_def insert_property_last)
  finally show ?case .
qed

lemma ordered_properties_map:
  "ordered_properties (map (\<lambda>(k, v). (k, f v)) ps) = ordered_properties ps"
proof -
  have "map fst (map (\<lambda>(k, v). (k, f v)) ps) = map fst ps"
    by (induction ps) auto
  moreover have "map (rank \<circ> fst) (map (\<lambda>(k, v). (k, f v)) ps) = map (rank \<circ> fst) ps"
    by (induction ps) auto
  ultimately show ?thesis
    unfolding ordered_properties_def by (simp only:)
qed

lemma JSON_parse_js_data: "js_data (JSON_parse b)"
proof (induction b)
  case (JsonNumber x)
  then show ?case
    by (cases "to_double x") (simp_all add: to_double_fixed)
next
  case (JsonArray xs)
  then show ?case by (simp add: list_all_iff)
next
  case (JsonObject kvs)
  have "list_all (\<lambda>p. js_data (snd p)) (map (\<lambda>(k, v). (k, JSON_parse v)) kvs)"
    using JsonObject by (auto simp: list_all_iff)
  then show ?case
    using properties_ordered [of js_data "map (\<lambda>(k, v). (k, JSON_parse v)) kvs"] by simp
qed simp_all

lemma JSON_parse_stringify:
  assumes T: "\<And>d. to_double d = Finite d \<Longrightarrow> to_double (T d) = Finite d"
  shows "js_data v \<Longrightarrow> JSON_parse (JSON_stringify T v) = nulled v"
proof (induction v)
  case (DataNumber n)
  then show ?case by (cases n) (simp_all add: T)
next
  case (DataArray xs)
  then show ?case by (simp add: list_all_iff)
next
  case (DataObject ps)
  have "map (\<lambda>(k, v). (k, JSON_parse v)) (map (\<lambda>(k, v). (k, JSON_stringify T v)) ps)
      = map (\<lambda>(k, v). (k, nulled v)) ps"
    using DataObject by (auto simp: list_all_iff)
  moreover have "ordered_properties (map (\<lambda>(k, v). (k, nulled v)) ps)"
    using DataObject.prems by (simp add: ordered_properties_map)
  ultimately show ?case
    by (simp add: properties_fixed del: map_map)
qed simp_all

lemma JSON_stringify_nulled: "JSON_stringify T (nulled v) = JSON_stringify T v"
proof (induction v)
  case (DataNumber n)
  then show ?case by (cases n) simp_all
next
  case (DataObject ps)
  then show ?case by auto
qed simp_all

lemma roundtrip_idem:
  assumes T: "\<And>d. to_double d = Finite d \<Longrightarrow> to_double (T d) = Finite d"
  shows "JSON_stringify T (JSON_parse (JSON_stringify T (JSON_parse b))) = JSON_stringify T (JSON_parse b)"
  using JSON_parse_stringify [of T "JSON_parse b", OF T] JSON_parse_js_data [of b]
  by (simp add: JSON_stringify_nulled)

lemma map_of_replace_at:
  "map_of (map (\<lambda>p. if fst p = k then (fst p, v) else p) ps) x
     = (if x = k \<and> k \<in> fst ` set ps then Some v else map_of ps x)"
  by (induction ps) (auto simp: image_iff; fastforce)+

lemma map_of_replace:
  "k \<in> fst ` set ps
    \<Longrightarrow> map_of (map (\<lambda>p. if fst p = k then (fst p, v) else p) ps) = (map_of ps)(k \<mapsto> v)"
  by (simp add: fun_eq_iff map_of_replace_at)

lemma map_of_insert_property:
  "k \<notin> fst ` set ps \<Longrightarrow> map_of (insert_property k v ps) = (map_of ps)(k \<mapsto> v)"
  by (induction ps) (auto simp: fun_eq_iff)

lemma map_of_put_property: "map_of (put_property ps kv) = (map_of ps)(fst kv \<mapsto> snd kv)"
  by (simp add: put_property_def map_of_replace map_of_insert_property)

lemma map_of_foldl_put_property:
  "map_of (foldl put_property acc kvs) = map_of acc ++ map_of (rev kvs)"
proof (induction kvs arbitrary: acc)
  case Nil
  then show ?case by simp
next
  case (Cons kv kvs)
  show ?case
    by (cases kv)
      (auto simp: Cons.IH map_of_put_property fun_eq_iff map_add_def split: option.splits)
qed

lemma map_of_properties: "map_of (properties kvs) = map_of (rev kvs)"
  by (simp add: properties_def map_of_foldl_put_property)

lemma map_of_rev_map:
  "map_of (rev (map (\<lambda>(k, v). (k, f v)) kvs)) = map_option f \<circ> map_of (rev kvs)"
  unfolding rev_map by (rule map_of_map)

lemma properties_distinct: "distinct (map fst (properties kvs))"
  using properties_ordered [of "\<lambda>x. True" kvs]
  by (simp add: ordered_properties_def list_all_iff)

lemma forwarded_members:
  "\<exists>ms. JSON_stringify T (JSON_parse (JsonObject kvs)) = JsonObject ms
     \<and> distinct (map fst ms)
     \<and> map_of ms = map_option (\<lambda>v. JSON_stringify T (JSON_parse v)) \<circ> map_of (rev kvs)"
proof -
  let ?ps = "properties (map (\<lambda>(k, v). (k, JSON_parse v)) kvs)"
  let ?ms = "map (\<lambda>(k, v). (k, JSON_stringify T v)) ?ps"
  have d: "distinct (map fst ?ms)"
  proof -
    have "map fst ?ms = map fst ?ps"
      by (simp add: case_prod_beta comp_def)
    then show ?thesis
      using properties_distinct [of "map (\<lambda>(k, v). (k, JSON_parse v)) kvs"] by (simp only:)
  qed
  have "map_of ?ms = map_option (JSON_stringify T) \<circ> map_of ?ps"
    by (rule map_of_map)
  also have "\<dots> = map_option (JSON_stringify T) \<circ> (map_option JSON_parse \<circ> map_of (rev kvs))"
    by (simp only: map_of_properties map_of_rev_map)
  also have "\<dots> = map_option (\<lambda>v. JSON_stringify T (JSON_parse v)) \<circ> map_of (rev kvs)"
    by (simp add: fun_eq_iff option.map_comp comp_def)
  finally show ?thesis
    using d by simp
qed

lemma to_double_reads_back:
  "reads_back T \<Longrightarrow> to_double x = Finite d \<Longrightarrow> to_double (T d) = Finite d"
  using to_double_fixed [of x d] by (simp add: reads_back_def)

lemma to_double_1000: "to_double 1000 = Finite 1000"
proof -
  have "double_near 1000 =
     of_int (round_half_even (1000 / 2 powr of_int (9 - 52))) * 2 powr of_int (9 - 52)"
    by (rule double_near_in_binade) simp_all
  also have "\<dots> = 1000"
    by (simp add: round_half_even_def Let_def powr_minus field_simps)
  finally show ?thesis by (simp add: to_double_def)
qed

text \<open>
  C8, as amended. For every POST whose body is JSON text, the handler of the mc-simulate
  route makes one call, a POST to \<^verbatim>\<open>http://localhost:8000/mc-simulate\<close> with the
  content type \<^verbatim>\<open>application/json\<close>, whose body is the received body parsed and
  written again, and it answers with the status 200 and the body of the backend's
  response parsed and written again. Writing again keeps null, booleans and strings,
  writes arrays element by element, writes each number as the text of its nearest double
  (which reads as the same double as the number received) or as null when the number is
  beyond the range of doubles, and writes an object with each key once, holding the
  written-again value of the key's last member in the text: no key is added and none is
  dropped. The forwarded body reads as the value the handler read, infinities become null;
  and writing it again changes nothing, so a body that \<^verbatim>\<open>JSON.stringify\<close> wrote is
  forwarded as it is.
\<close>

theorem POST_reserialises:
  assumes "reads_back T"
  shows "fst (POST T backend (Some b)) =
       [\<lparr> fetch_url = ''http://localhost:8000/mc-simulate'', fetch_method = ''POST'',
          fetch_headers = [(''Content-Type'', ''application/json'')],
          fetch_body = JSON_stringify T (JSON_parse b) \<rparr>]
     \<and> snd (POST T backend (Some b)) =
         (case backend \<lparr> fetch_url = ''http://localhost:8000/mc-simulate'',
                         fetch_method = ''POST'',
                         fetch_headers = [(''Content-Type'', ''application/json'')],
                         fetch_body = JSON_stringify T (JSON_parse b) \<rparr> of
            None \<Rightarrow> None
          | Some res \<Rightarrow>
              map_option
                (\<lambda>answer. \<lparr> response_status = 200,
                             response_body = JSON_stringify T (JSON_parse answer) \<rparr>)
                (backend_body res))
     \<and> JSON_parse (JSON_stringify T (JSON_parse b)) = nulled (JSON_parse b)
     \<and> JSON_stringify T (JSON_parse (JSON_stringify T (JSON_parse b)))
         = JSON_stringify T (JSON_parse b)
     \<and> (\<forall>kvs. \<exists>ms. JSON_stringify T (JSON_parse (JsonObject kvs)) = JsonObject ms
           \<and> distinct (map fst ms)
           \<and> map_of ms = map_option (\<lambda>v. JSON_stringify T (JSON_parse v)) \<circ> map_of (rev kvs))
     \<and> (\<forall>xs. JSON_stringify T (JSON_parse (JsonArray xs))
           = JsonArray (map (\<lambda>v. JSON_stringify T (JSON_parse v)) xs))
     \<and> (\<forall>x. JSON_stringify T (JSON_parse (JsonNumber x))
           = (case to_double x of Finite d \<Rightarrow> JsonNumber (T d) | _ \<Rightarrow> JsonNull))
     \<and> (\<forall>x d. to_double x = Finite d \<longrightarrow> to_double (T d) = to_double x)
     \<and> (\<forall>s. JSON_stringify T (JSON_parse (JsonString s)) = JsonString s)
     \<and> (\<forall>c. JSON_stringify T (JSON_parse (JsonBool c)) = JsonBool c)
     \<and> JSON_stringify T (JSON_parse JsonNull) = JsonNull"
proof -
  have T: "\<And>d. to_double d = Finite d \<Longrightarrow> to_double (T d) = Finite d"
    using assms by (simp add: reads_back_def)
  have 1: "JSON_parse (JSON_stringify T (JSON_parse b)) = nulled (JSON_parse b)"
    using JSON_parse_stringify [of T "JSON_parse b", OF T] JSON_parse_js_data [of b] by simp
  have 2: "JSON_stringify T (JSON_parse (JSON_stringify T (JSON_parse b)))
         = JSON_stringify T (JSON_parse b)"
    by (simp only: 1 JSON_stringify_nulled)
  have 3: "\<forall>x. JSON_stringify T (JSON_parse (JsonNumber x))
           = (case to_double x of Finite d \<Rightarrow> JsonNumber (T d) | _ \<Rightarrow> JsonNull)"
    by (simp split: jsnumber.splits)
  have 4: "\<forall>x d. to_double x = Finite d \<longrightarrow> to_double (T d) = to_double x"
    using to_double_reads_back [OF assms] by simp
  have 5: "snd (POST T backend (Some b)) =
         (case backend \<lparr> fetch_url = ''http://localhost:8000/mc-simulate'',
                         fetch_method = ''POST'',
                         fetch_headers = [(''Content-Type'', ''application/json'')],
                         fetch_body = JSON_stringify T (JSON_parse b) \<rparr> of
            None \<Rightarrow> None
          | Some res \<Rightarrow>
              map_option
                (\<lambda>answer. \<lparr> response_status = 200,
                             response_body = JSON_stringify T (JSON_parse answer) \<rparr>)
                (backend_body res))"
    by (simp add: POST_def Let_def split: option.splits)
  have 6: "fst (POST T backend (Some b)) =
       [\<lparr> fetch_url = ''http://localhost:8000/mc-simulate'', fetch_method = ''POST'',
          fetch_headers = [(''Content-Type'', ''application/json'')],
          fetch_body = JSON_stringify T (JSON_parse b) \<rparr>]"
    by (simp add: POST_def Let_def)
  have 7: "\<forall>xs. JSON_stringify T (JSON_parse (JsonArray xs))
           = JsonArray (map (\<lambda>v. JSON_stringify T (JSON_parse v)) xs)"
    by simp
  show ?thesis
    using 1 2 3 4 5 6 7 forwarded_members [of T] by simp
qed

theorem POST_reserialises_witness:
  "reads_back (\<lambda>d. d)
   \<and> POST (\<lambda>d. d)
       (\<lambda>call. Some \<lparr> backend_status = 200,
                      backend_body = Some (JsonObject [(''echo'', fetch_body call)]) \<rparr>)
       (Some (JsonObject [(''fund_name'', JsonString ''WG OBLIGATIONS''),
                          (''n_paths'', JsonNumber 1000)]))
     = ([\<lparr> fetch_url = ''http://localhost:8000/mc-simulate'', fetch_method = ''POST'',
           fetch_headers = [(''Content-Type'', ''application/json'')],
           fetch_body = JsonObject [(''fund_name'', JsonString ''WG OBLIGATIONS''),
                                    (''n_paths'', JsonNumber 1000)] \<rparr>],
        Some \<lparr> response_status = 200,
               response_body =
                 JsonObject [(''echo'', JsonObject [(''fund_name'', JsonString ''WG OBLIGATIONS''),
                                                    (''n_paths'', JsonNumber 1000)])] \<rparr>)"
proof -
  have r: "reads_back (\<lambda>d. d)"
    by (simp add: reads_back_def)
  have p: "JSON_stringify (\<lambda>d. d)
             (JSON_parse (JsonObject [(''fund_name'', JsonString ''WG OBLIGATIONS''),
                                      (''n_paths'', JsonNumber 1000)]))
         = JsonObject [(''fund_name'', JsonString ''WG OBLIGATIONS''),
                       (''n_paths'', JsonNumber 1000)]"
    by (simp add: properties_def put_property_def rank_def array_index_def digit_value_def
        to_double_1000)
  have q: "JSON_stringify (\<lambda>d. d)
             (JSON_parse (JsonObject [(''echo'',
                JsonObject [(''fund_name'', JsonString ''WG OBLIGATIONS''),
                            (''n_paths'', JsonNumber 1000)])]))
         = JsonObject [(''echo'', JsonObject [(''fund_name'', JsonString ''WG OBLIGATIONS''),
                                              (''n_paths'', JsonNumber 1000)])]"
    by (simp add: properties_def put_property_def rank_def array_index_def digit_value_def
        to_double_1000)
  show ?thesis
    using r POST_reserialises
      [OF r, of "\<lambda>call. Some \<lparr> backend_status = 200,
                      backend_body = Some (JsonObject [(''echo'', fetch_body call)]) \<rparr>"
          "JsonObject [(''fund_name'', JsonString ''WG OBLIGATIONS''),
                       (''n_paths'', JsonNumber 1000)]"]
    by (simp add: prod_eq_iff p q del: JSON_parse.simps JSON_stringify.simps)
qed

text \<open>
  C8 as stated fails: the handler does rewrite members. It forwards the path count
  9007199254740993 as 9007199254740992 (the nearest double; \<^verbatim>\<open>JSON.stringify\<close> writes
  that integer digit for digit), an amount of \<open>10\<^sup>4\<^sup>0\<^sup>0\<close> as null, only the last of two
  members with the same key, and a member with the key 1 ahead of the member written
  before it; and it answers a backend response of status 422 with the status 200. (Here
  \<open>T\<close> is the identity: the one number written is an integer double below \<open>10\<^sup>2\<^sup>1\<close>.)
\<close>

theorem POST_rewrites_body:
  "fst (POST id Map.empty
         (Some (JsonObject [(''n_paths'', JsonNumber 9007199254740993)])))
     = [\<lparr> fetch_url = ''http://localhost:8000/mc-simulate'', fetch_method = ''POST'',
          fetch_headers = [(''Content-Type'', ''application/json'')],
          fetch_body = JsonObject [(''n_paths'', JsonNumber 9007199254740992)] \<rparr>]
   \<and> fst (POST id Map.empty
         (Some (JsonObject [(''initial_amount'', JsonNumber (10 ^ 400))])))
     = [\<lparr> fetch_url = ''http://localhost:8000/mc-simulate'', fetch_method = ''POST'',
          fetch_headers = [(''Content-Type'', ''application/json'')],
          fetch_body = JsonObject [(''initial_amount'', JsonNull)] \<rparr>]
   \<and> fst (POST id Map.empty
         (Some (JsonObject [(''fund_name'', JsonString ''WG ACTIONS''),
                            (''fund_name'', JsonString ''WG OBLIGATIONS'')])))
     = [\<lparr> fetch_url = ''http://localhost:8000/mc-simulate'', fetch_method = ''POST'',
          fetch_headers = [(''Content-Type'', ''application/json'')],
          fetch_body = JsonObject [(''fund_name'', JsonString ''WG OBLIGATIONS'')] \<rparr>]
   \<and> fst (POST id Map.empty
         (Some (JsonObject [(''fund_name'', JsonString ''WG ACTIONS''), (''1'', JsonNull)])))
     = [\<lparr> fetch_url = ''http://localhost:8000/mc-simulate'', fetch_method = ''POST'',
          fetch_headers = [(''Content-Type'', ''application/json'')],
          fetch_body = JsonObject [(''1'', JsonNull),
                                   (''fund_name'', JsonString ''WG ACTIONS'')] \<rparr>]
   \<and> snd (POST id
         [\<lparr> fetch_url = ''http://localhost:8000/mc-simulate'', fetch_method = ''POST'',
            fetch_headers = [(''Content-Type'', ''application/json'')],
            fetch_body = JsonObject [(''fund_name'', JsonString ''NO SUCH FUND'')] \<rparr>
          \<mapsto> \<lparr> backend_status = 422,
               backend_body = Some (JsonObject [(''detail'', JsonString ''unknown fund'')]) \<rparr>]
         (Some (JsonObject [(''fund_name'', JsonString ''NO SUCH FUND'')])))
     = Some \<lparr> response_status = 200,
              response_body = JsonObject [(''detail'', JsonString ''unknown fund'')] \<rparr>"
  by (simp add: POST_def Let_def properties_def put_property_def rank_def array_index_def
      digit_value_def to_double_2_53_plus_1 to_double_beyond_range)

section \<open>Switching the simulation type\<close>

text \<open>
  C9, as amended. Whenever the user clicks a simulation type, the stored result is reset
  to null, so the result that was stored before the click is not rendered after it: the
  results card shows its placeholder and no chart is drawn. The fund, the initial amount,
  the monthly contribution, the years, the fee and the path count are left as they were.
\<close>

theorem type_change_clears_result:
  "result (handleSimulationTypeChange t st) = JNull
   \<and> simulationType (handleSimulationTypeChange t st) = t
   \<and> fund (handleSimulationTypeChange t st) = fund st
   \<and> initial (handleSimulationTypeChange t st) = initial st
   \<and> monthly (handleSimulationTypeChange t st) = monthly st
   \<and> years (handleSimulationTypeChange t st) = years st
   \<and> fee (handleSimulationTypeChange t st) = fee st
   \<and> nPaths (handleSimulationTypeChange t st) = nPaths st
   \<and> results (Home (handleSimulationTypeChange t st)) =
        Some (Placeholder (CardDescription t) ''Run a simulation to see projected outcomes.'')
   \<and> chart (Home (handleSimulationTypeChange t st)) = Some NoChart"
  by (simp add: handleSimulationTypeChange_def Home_def SimulationResults_def
      ProjectionChart_def)

theorem type_change_clears_result_witness:
  "result (handleSimulationTypeChange MonteCarlo
            (Home_init\<lparr>result := JObj [(''category'', JStr ''Actions'')]\<rparr>)) = JNull
   \<and> nPaths (handleSimulationTypeChange MonteCarlo
            (Home_init\<lparr>result := JObj [(''category'', JStr ''Actions'')]\<rparr>)) = 5000"
  using type_change_clears_result
    [of MonteCarlo "Home_init\<lparr>result := JObj [(''category'', JStr ''Actions'')]\<rparr>"]
  by (simp add: Home_init_def)

text \<open>
  C9 as stated fails: a result produced under the previous mode can be rendered under the
  new one. The user runs a Monte Carlo simulation and, while the request to
  \<^verbatim>\<open>/api/mc-simulate\<close> is in flight (only the run button is disabled meanwhile), clicks
  Deterministic; the response then arrives and is stored. The page is in deterministic
  mode and renders the Monte Carlo result in the deterministic cards.
\<close>

theorem late_response_rendered_in_new_mode:
  "map_option endpoint
     (pending (run [TypeClick MonteCarlo, RunClick, TypeClick Deterministic] client_init))
     = Some ''/api/mc-simulate''
   \<and> simulationType
       (ui (run [TypeClick MonteCarlo, RunClick, TypeClick Deterministic,
                 Response (JObj [(''category'', JStr ''Actions''),
                                 (''net_final_value'', JNum 250000),
                                 (''prob_loss'', JNum (1 / 10))])]
             client_init))
     = Deterministic
   \<and> results
       (Home (ui (run [TypeClick MonteCarlo, RunClick, TypeClick Deterministic,
                       Response (JObj [(''category'', JStr ''Actions''),
                                       (''net_final_value'', JNum 250000),
                                       (''prob_loss'', JNum (1 / 10))])]
                   client_init)))
     = Some (ResultsCard ''Key performance indicators after fees and tax.'' (JStr ''Actions'')
              (Mount_DeterministicResults
                (JObj [(''category'', JStr ''Actions''),
                       (''net_final_value'', JNum 250000),
                       (''prob_loss'', JNum (1 / 10))])))
   \<and> render_child
       (Mount_DeterministicResults
         (JObj [(''category'', JStr ''Actions''),
                (''net_final_value'', JNum 250000),
                (''prob_loss'', JNum (1 / 10))]))
     = Some (DetCards \<lparr> det_assumed_annual_return = PercentFormat (JNum 0),
                         det_net_final_value = MadFormat (JNum 250000),
                         det_net_profit_after_tax = MadFormat (JNum 0),
                         det_tax_paid = MadFormat (JNum 0) \<rparr>)"
  by (simp add: run_def client_init_def Home_init_def handleSimulationTypeChange_def
      SimulationInputs_handleSimulationTypeChange_def runSimulation_begin_def
      runSimulation_request_def requestBody_def
      runSimulation_resolve_def Home_def SimulationResults_def CardDescription_def
      DeterministicResults_def js_or_def field_def)

section \<open>Rendering a result with missing members\<close>

text \<open>
  C10. Rendering a result object never fails, in either mode, and every figure of the
  cards shows the number of its member, or 0 when the member is missing, undefined or
  null: a missing member reads as \<^verbatim>\<open>undefined\<close>, and \<open>number_or_zero\<close> of
  \<^verbatim>\<open>undefined\<close> and of \<^verbatim>\<open>null\<close> is 0. Through the optional chain, a percentile shows
  0 when \<^verbatim>\<open>percentiles\<close> is missing and the Sharpe ratio shows 0.00 when
  \<^verbatim>\<open>risk_metrics\<close> is. The chart gets the trajectory, or the empty series when the
  trajectory is missing.
\<close>

theorem missing_members_render_as_zero:
  assumes "result_object r"
  shows "DeterministicResults r =
     Some \<lparr> det_assumed_annual_return =
              PercentFormat (JNum (number_or_zero (member r ''assumed_annual_return''))),
            det_net_final_value = MadFormat (JNum (number_or_zero (member r ''net_final_value''))),
            det_net_profit_after_tax =
              MadFormat (JNum (number_or_zero (member r ''net_profit_after_tax''))),
            det_tax_paid = MadFormat (JNum (number_or_zero (member r ''tax_paid''))) \<rparr>
   \<and> MonteCarloResults r =
     Some \<lparr> mc_assumed_annual_return =
              PercentFormat (JNum (number_or_zero (member r ''assumed_annual_return''))),
            mc_assumed_annual_vol =
              PercentFormat (JNum (number_or_zero (member r ''assumed_annual_vol''))),
            mc_p5 = MadFormat (JNum (number_or_zero (member (member r ''percentiles'') ''p5''))),
            mc_p50 = MadFormat (JNum (number_or_zero (member (member r ''percentiles'') ''p50''))),
            mc_p95 = MadFormat (JNum (number_or_zero (member (member r ''percentiles'') ''p95''))),
            mc_prob_loss = PercentFormat (JNum (number_or_zero (member r ''prob_loss''))),
            mc_sharpe =
              FixedFormat (number_or_zero (member (member r ''risk_metrics'') ''sharpe'')) 2 \<rparr>
   \<and> ProjectionChart r Deterministic =
     Some (LineChart (case member r ''trajectory'' of JArr points \<Rightarrow> JArr points
                      | _ \<Rightarrow> JArr []))
   \<and> (\<exists>desc cat child shown. SimulationResults r t = Some (ResultsCard desc cat child)
         \<and> render_child child = Some shown)
   \<and> member (JObj kvs) k = (case field kvs k of None \<Rightarrow> JUndefined | Some v \<Rightarrow> v)
   \<and> member JUndefined k = JUndefined \<and> member JNull k = JUndefined
   \<and> number_or_zero JUndefined = 0 \<and> number_or_zero JNull = 0"
proof -
  have "\<exists>shown. render_child (if t = Deterministic then Mount_DeterministicResults r
             else Mount_MonteCarloResults r) = Some shown"
    by (simp add: DeterministicResults_object [OF assms] MonteCarloResults_object [OF assms])
  moreover have "member (JObj kvs) k = (case field kvs k of None \<Rightarrow> JUndefined | Some v \<Rightarrow> v)
      \<and> member JUndefined k = JUndefined \<and> member JNull k = JUndefined
      \<and> number_or_zero JUndefined = 0 \<and> number_or_zero JNull = 0"
    by (simp add: number_or_zero_def member_def get_opt_def)
  ultimately show ?thesis
    using DeterministicResults_object [OF assms] MonteCarloResults_object [OF assms]
      ProjectionChart_object [OF assms] SimulationResults_object [OF assms, of t]
    by simp
qed

theorem missing_members_render_as_zero_witness:
  "result_object
     (JObj [(''category'', JStr ''Actions''), (''assumed_annual_return'', JNum (12 / 100)),
            (''percentiles'', JObj [(''p5'', JNum 90000), (''p50'', JNum 120000)]),
            (''risk_metrics'', JNull)])
   \<and> MonteCarloResults
     (JObj [(''category'', JStr ''Actions''), (''assumed_annual_return'', JNum (12 / 100)),
            (''percentiles'', JObj [(''p5'', JNum 90000), (''p50'', JNum 120000)]),
            (''risk_metrics'', JNull)]) =
     Some \<lparr> mc_assumed_annual_return = PercentFormat (JNum (12 / 100)),
            mc_assumed_annual_vol = PercentFormat (JNum 0),
            mc_p5 = MadFormat (JNum 90000),
            mc_p50 = MadFormat (JNum 120000),
            mc_p95 = MadFormat (JNum 0),
            mc_prob_loss = PercentFormat (JNum 0),
            mc_sharpe = FixedFormat 0 2 \<rparr>
   \<and> DeterministicResults
     (JObj [(''category'', JStr ''Actions''), (''assumed_annual_return'', JNum (12 / 100)),
            (''percentiles'', JObj [(''p5'', JNum 90000), (''p50'', JNum 120000)]),
            (''risk_metrics'', JNull)]) =
     Some \<lparr> det_assumed_annual_return = PercentFormat (JNum (12 / 100)),
            det_net_final_value = MadFormat (JNum 0),
            det_net_profit_after_tax = MadFormat (JNum 0),
            det_tax_paid = MadFormat (JNum 0) \<rparr>
   \<and> ProjectionChart
     (JObj [(''category'', JStr ''Actions''), (''assumed_annual_return'', JNum (12 / 100)),
            (''percentiles'', JObj [(''p5'', JNum 90000), (''p50'', JNum 120000)]),
            (''risk_metrics'', JNull)]) Deterministic = Some (LineChart (JArr []))"
proof -
  let ?r = "JObj [(''category'', JStr ''Actions''), (''assumed_annual_return'', JNum (12 / 100)),
            (''percentiles'', JObj [(''p5'', JNum 90000), (''p50'', JNum 120000)]),
            (''risk_metrics'', JNull)]"
  have ro: "result_object ?r"
    by (simp add: result_object_def member_def get_opt_def field_def)
  show ?thesis
    using ro missing_members_render_as_zero [OF ro]
    by (simp add: member_def get_opt_def field_def number_or_zero_def)
qed

end
